theory Spec2Isabelle
  imports Complex_Main
begin

section \<open>ABeamer expressions: the lexer and the evaluator of \<^verbatim>\<open>expressions.ts\<close>\<close>

text \<open>
  A shallow embedding of \<^verbatim>\<open>src/client/lib/js/expressions.ts\<close>: the lexer
  \<^verbatim>\<open>parser\<close>, the evaluator \<^verbatim>\<open>_stateMachine\<close> with its reductions
  \<^verbatim>\<open>calcStackLeft\<close> and \<^verbatim>\<open>calcStackRight\<close>, the computations \<^verbatim>\<open>_calcUnary\<close>
  and \<^verbatim>\<open>_calcBinary\<close>, and the public functions \<^verbatim>\<open>calcExpr\<close> and
  \<^verbatim>\<open>ifExprCalcNum\<close>. A \<^verbatim>\<open>throw\<close> is a value \<open>Inl e\<close>; the mutable objects the
  code shares (the numeric arrays) live in an explicit store; the main loop
  \<^verbatim>\<open>do { ... } while (true)\<close> is a partial function, so that not returning is \<open>None\<close>.
\<close>

subsection \<open>The numbers of JavaScript\<close>

text \<open>
  A JavaScript number is an IEEE 754 double. The embedding does not fix that arithmetic:
  the type of numbers is a parameter \<open>'n\<close> and the primitives the code uses on numbers
  are the fields of a record. Every theorem over an arbitrary record holds of the doubles.
\<close>

record 'n JSNumber =
  parseFloat :: "string \<Rightarrow> 'n"          \<comment> \<open>\<^verbatim>\<open>parseFloat(s)\<close>\<close>
  toString :: "'n \<Rightarrow> string"            \<comment> \<open>\<^verbatim>\<open>n.toString()\<close>\<close>
  numAdd :: "'n \<Rightarrow> 'n \<Rightarrow> 'n"            \<comment> \<open>\<^verbatim>\<open>a + b\<close> on two numbers\<close>
  numSub :: "'n \<Rightarrow> 'n \<Rightarrow> 'n"            \<comment> \<open>\<^verbatim>\<open>a - b\<close>\<close>
  numMul :: "'n \<Rightarrow> 'n \<Rightarrow> 'n"            \<comment> \<open>\<^verbatim>\<open>a * b\<close>\<close>
  numDiv :: "'n \<Rightarrow> 'n \<Rightarrow> 'n"            \<comment> \<open>\<^verbatim>\<open>a / b\<close>\<close>
  numMod :: "'n \<Rightarrow> 'n \<Rightarrow> 'n"            \<comment> \<open>\<^verbatim>\<open>a % b\<close>\<close>
  numNeg :: "'n \<Rightarrow> 'n"                 \<comment> \<open>\<^verbatim>\<open>-a\<close>\<close>
  numEq :: "'n \<Rightarrow> 'n \<Rightarrow> bool"           \<comment> \<open>\<^verbatim>\<open>a === b\<close>\<close>
  numLt :: "'n \<Rightarrow> 'n \<Rightarrow> bool"           \<comment> \<open>\<^verbatim>\<open>a < b\<close>\<close>
  numLe :: "'n \<Rightarrow> 'n \<Rightarrow> bool"           \<comment> \<open>\<^verbatim>\<open>a <= b\<close>\<close>
  numTruthy :: "'n \<Rightarrow> bool"             \<comment> \<open>the number read as a condition\<close>
  numNaN :: 'n                          \<comment> \<open>\<^verbatim>\<open>NaN\<close>, the number \<^verbatim>\<open>undefined\<close> converts to\<close>
  numZero :: 'n                         \<comment> \<open>the literal \<^verbatim>\<open>0\<close>\<close>
  numOne :: 'n                          \<comment> \<open>the literal \<^verbatim>\<open>1\<close>\<close>

text \<open>
  The operators of JavaScript on a value that is a number or \<^verbatim>\<open>undefined\<close> (\<open>None\<close>):
  \<^verbatim>\<open>undefined\<close> converts to \<^verbatim>\<open>NaN\<close> under arithmetic, compares false under the ordering,
  is strictly equal to itself only, and is false as a condition.
\<close>

definition arith :: "'n JSNumber \<Rightarrow> ('n \<Rightarrow> 'n \<Rightarrow> 'n) \<Rightarrow> 'n option \<Rightarrow> 'n option \<Rightarrow> 'n" where
  "arith js f a b = (case a of None \<Rightarrow> numNaN js
     | Some x \<Rightarrow> (case b of None \<Rightarrow> numNaN js | Some y \<Rightarrow> f x y))"

definition strictEq :: "'n JSNumber \<Rightarrow> 'n option \<Rightarrow> 'n option \<Rightarrow> bool" where
  "strictEq js a b = (case a of None \<Rightarrow> b = None
     | Some x \<Rightarrow> (case b of None \<Rightarrow> False | Some y \<Rightarrow> numEq js x y))"

definition ordered :: "('n \<Rightarrow> 'n \<Rightarrow> bool) \<Rightarrow> 'n option \<Rightarrow> 'n option \<Rightarrow> bool" where
  "ordered r a b = (case a of None \<Rightarrow> False
     | Some x \<Rightarrow> (case b of None \<Rightarrow> False | Some y \<Rightarrow> r x y))"

definition truthy :: "'n JSNumber \<Rightarrow> 'n option \<Rightarrow> bool" where
  "truthy js a = (case a of None \<Rightarrow> False | Some x \<Rightarrow> numTruthy js x)"

definition negate :: "'n JSNumber \<Rightarrow> 'n option \<Rightarrow> 'n" where
  "negate js a = (case a of None \<Rightarrow> numNaN js | Some x \<Rightarrow> numNeg js x)"

definition bool2num :: "'n JSNumber \<Rightarrow> bool \<Rightarrow> 'n" where
  "bool2num js b = (if b then numOne js else numZero js)"

subsection \<open>Errors\<close>

text \<open>
  \<^verbatim>\<open>err(p, msg)\<close> throws the localized \<^verbatim>\<open>ExpHasErrors\<close> with the message \<^verbatim>\<open>msg\<close>;
  \<^verbatim>\<open>throwErr(msg)\<close> throws \<^verbatim>\<open>msg\<close>; reading a property of \<^verbatim>\<open>undefined\<close>
  throws a \<^verbatim>\<open>TypeError\<close>. One constructor stands for each message of the source.
\<close>

datatype error =
    UnknownVariable string            \<comment> \<open>\<^verbatim>\<open>Unknown variable ${varName}\<close>\<close>
  | UnsupportedType string            \<comment> \<open>\<^verbatim>\<open>Unsupported type of ${varName}\<close>\<close>
  | UnknownToken string nat           \<comment> \<open>\<^verbatim>\<open>Unknown token ${ch} in position ${pos}\<close>\<close>
  | UnknownFunction "string option"   \<comment> \<open>\<^verbatim>\<open>Unknown function: ${funcName}\<close>\<close>
  | NoMessage                         \<comment> \<open>\<^verbatim>\<open>err(p, '', token)\<close>\<close>
  | MissingStartingParenthesis        \<comment> \<open>\<^verbatim>\<open>Missing starting parenthesis\<close>\<close>
  | MissingFunction                   \<comment> \<open>\<^verbatim>\<open>Missing function\<close>\<close>
  | StackNotEmpty                     \<comment> \<open>\<^verbatim>\<open>Stack not empty\<close>\<close>
  | NotAValue                         \<comment> \<open>\<^verbatim>\<open>Not a value\<close>\<close>
  | UnaryErr                          \<comment> \<open>\<^verbatim>\<open>Msgs.UnaryErr\<close>\<close>
  | OnlySupportsNumbers               \<comment> \<open>\<^verbatim>\<open>This op only supports numbers\<close>\<close>
  | CanOnlyAdd2Arrays                 \<comment> \<open>\<^verbatim>\<open>Can only add 2 arrays\<close>\<close>
  | ArraysSameValue                   \<comment> \<open>\<^verbatim>\<open>Both arrays must have the same value\<close>\<close>
  | MustBeANumber                     \<comment> \<open>\<^verbatim>\<open>Msgs.MustBeANumber\<close>\<close>
  | TypeError                         \<comment> \<open>a property of \<^verbatim>\<open>undefined\<close> is read\<close>
  | FunctionError string              \<comment> \<open>thrown by a registered function\<close>

definition bindE :: "error + 'a \<Rightarrow> ('a \<Rightarrow> error + 'b) \<Rightarrow> error + 'b" where
  "bindE m f = (case m of Inl e \<Rightarrow> Inl e | Inr x \<Rightarrow> f x)"

subsection \<open>Tokens\<close>

datatype TokenType =
    TkNone | TkFunction | TkArrayOpen | TkArrayClose | TkComma | TkParamOpen | TkParamClose
  | TkValue | TkPlus | TkMinus | TkMultiply | TkDivide | TkMod | TkEqual | TkDifferent
  | TkLesser | TkGreater | TkLessEqual | TkGreaterEqual | TkLogicalAnd | TkLogicalOr
  | TkLogicalNot

datatype TokenClass =
    ClNone | ClFunction | ClArrayOpen | ClArrayClose | ClValue | ClParamOpen | ClParamClose
  | ClUnary | ClLogicalUnary | ClBinary | ClComma

text \<open>
  The enumeration \<^verbatim>\<open>ExFuncParamType\<close> is declared in a file that is not among the
  sources; the code names its members \<^verbatim>\<open>Any\<close>, \<^verbatim>\<open>Number\<close>, \<^verbatim>\<open>String\<close> and
  \<^verbatim>\<open>Array\<close>.
\<close>

datatype ExFuncParamType = PaAny | PaNumber | PaString | PaArray

text \<open>
  An array of the program is an object on the heap: a token holds a reference to it (an
  address of the store), not its elements. An element is a number or \<^verbatim>\<open>undefined\<close>.
\<close>

type_synonym ref = nat

text \<open>
  \<^verbatim>\<open>sValue\<close> is declared a string. The one assignment that can leave another value there
  is the concatenation of \<^verbatim>\<open>_calcBinary\<close>, where \<^verbatim>\<open>undefined + undefined\<close> is the
  number \<^verbatim>\<open>NaN\<close>: \<open>NotText\<close> holds it.
\<close>

datatype 'n SValue = Text string | NotText 'n

text \<open>
  \<^verbatim>\<open>ExFuncParam\<close> and \<^verbatim>\<open>Token\<close>, which extends it. A field that is \<^verbatim>\<open>undefined\<close> is
  \<open>None\<close>. The lexer sets \<^verbatim>\<open>tkType\<close>, \<^verbatim>\<open>tkClass\<close> and \<^verbatim>\<open>canBinOp\<close> on every token it
  returns, and the tokens made for the result of a function or of an array literal carry
  them from their creation.
\<close>

record 'n ExFuncParam =
  paType :: "ExFuncParamType option"
  sValue :: "'n SValue option"
  numValue :: "'n option"
  arrayValue :: "ref option"

record 'n Token = "'n ExFuncParam" +
  tkType :: TokenType
  tkClass :: TokenClass
  canBinOp :: bool
  funcParams :: "'n ExFuncParam list option"

text \<open>The object \<^verbatim>\<open>{}\<close> that \<^verbatim>\<open>_stateMachine\<close> hands to the lexer.\<close>

definition emptyToken :: "'n Token" where
  "emptyToken = \<lparr> paType = None, sValue = None, numValue = None, arrayValue = None,
     tkType = TkNone, tkClass = ClNone, canBinOp = False, funcParams = None \<rparr>"

text \<open>What a function of the registry, typed by \<^verbatim>\<open>ExFuncParam\<close>, sees of a token.\<close>

definition asParam :: "'n Token \<Rightarrow> 'n ExFuncParam" where
  "asParam t = \<lparr> paType = paType t, sValue = sValue t, numValue = numValue t,
     arrayValue = arrayValue t \<rparr>"

fun opPriority :: "TokenType \<Rightarrow> nat" where
  "opPriority TkNone = 0"
| "opPriority TkFunction = 19"
| "opPriority TkArrayOpen = 19"
| "opPriority TkArrayClose = 19"
| "opPriority TkComma = 19"
| "opPriority TkParamOpen = 20"
| "opPriority TkParamClose = 20"
| "opPriority TkValue = 1"
| "opPriority TkPlus = 13"
| "opPriority TkMinus = 13"
| "opPriority TkMultiply = 14"
| "opPriority TkDivide = 14"
| "opPriority TkMod = 14"
| "opPriority TkEqual = 10"
| "opPriority TkDifferent = 10"
| "opPriority TkLesser = 11"
| "opPriority TkGreater = 11"
| "opPriority TkLessEqual = 11"
| "opPriority TkGreaterEqual = 11"
| "opPriority TkLogicalAnd = 6"
| "opPriority TkLogicalOr = 5"
| "opPriority TkLogicalNot = 16"

fun Type2Class :: "TokenType \<Rightarrow> TokenClass" where
  "Type2Class TkNone = ClNone"
| "Type2Class TkFunction = ClFunction"
| "Type2Class TkArrayOpen = ClArrayOpen"
| "Type2Class TkArrayClose = ClArrayClose"
| "Type2Class TkComma = ClComma"
| "Type2Class TkParamOpen = ClParamOpen"
| "Type2Class TkParamClose = ClParamClose"
| "Type2Class TkValue = ClValue"
| "Type2Class TkPlus = ClUnary"
| "Type2Class TkMinus = ClUnary"
| "Type2Class TkLogicalNot = ClLogicalUnary"
| "Type2Class _ = ClBinary"

text \<open>\<^verbatim>\<open>Str2TokenType[ch]\<close>; \<open>None\<close> where the table has no entry.\<close>

definition Str2TokenType :: "string \<Rightarrow> TokenType option" where
  "Str2TokenType s =
    (if s = ''['' then Some TkArrayOpen
     else if s = '']'' then Some TkArrayClose
     else if s = ''('' then Some TkParamOpen
     else if s = '')'' then Some TkParamClose
     else if s = ''+'' then Some TkPlus
     else if s = ''-'' then Some TkMinus
     else if s = ''*'' then Some TkMultiply
     else if s = ''/'' then Some TkDivide
     else if s = ''%'' then Some TkMod
     else if s = '','' then Some TkComma
     else if s = ''=='' then Some TkEqual
     else if s = ''!='' then Some TkDifferent
     else if s = ''<'' then Some TkLesser
     else if s = ''>'' then Some TkGreater
     else if s = ''<='' then Some TkLessEqual
     else if s = ''>='' then Some TkGreaterEqual
     else None)"

subsection \<open>The Variable Context and the store\<close>

text \<open>
  What \<^verbatim>\<open>p.args.vars[varName]\<close> can hold, by its \<^verbatim>\<open>typeof\<close>: a string, a number, an
  array (a reference), a boolean, or a value of another type (\<open>VOther\<close>); \<open>None\<close> is
  \<^verbatim>\<open>undefined\<close>.
\<close>

datatype 'n VarValue = VString string | VNumber 'n | VArray ref | VBoolean bool | VOther

record 'n Env =
  vars :: "string \<Rightarrow> 'n VarValue option"
  arrays :: "ref \<Rightarrow> 'n option list"      \<comment> \<open>the elements of the array at each address\<close>
  nextRef :: ref                          \<comment> \<open>the address the next new array gets\<close>

subsection \<open>Characters\<close>

definition charAt :: "string \<Rightarrow> nat \<Rightarrow> char option" where
  "charAt expr i = (if i < length expr then Some (expr ! i) else None)"

definition substring :: "string \<Rightarrow> nat \<Rightarrow> nat \<Rightarrow> string" where
  "substring expr a b = take (max a b - min a b) (drop (min a b) expr)"

definition quote :: char where
  "quote = CHR 0x27"

definition backslash :: char where
  "backslash = CHR 0x5C"

definition newline :: char where
  "newline = CHR 0x0A"

definition CharRanges :: "(nat \<times> nat) list" where
  "CharRanges = [(of_char CHR ''A'', of_char CHR ''Z''), (of_char CHR ''a'', of_char CHR ''z'')]"

definition isCharacter :: "char \<Rightarrow> bool" where
  "isCharacter ch = list_ex (\<lambda>rg. fst rg \<le> of_char ch \<and> of_char ch \<le> snd rg) CharRanges"

definition isDigit :: "char \<Rightarrow> bool" where
  "isDigit ch = ((of_char CHR ''0'' :: nat) \<le> of_char ch \<and> (of_char ch :: nat) \<le> of_char CHR ''9'')"

definition isCharacterOrNum :: "char \<Rightarrow> bool" where
  "isCharacterOrNum ch = (isDigit ch \<or> isCharacter ch)"

text \<open>\<^verbatim>\<open>isDigit(expr[pos + 1])\<close>: \<^verbatim>\<open>undefined >= '0'\<close> is false.\<close>

definition isDigitAt :: "string \<Rightarrow> nat \<Rightarrow> bool" where
  "isDigitAt expr i = (case charAt expr i of None \<Rightarrow> False | Some c \<Rightarrow> isDigit c)"

definition isExpr :: "string \<Rightarrow> bool" where
  "isExpr text = (charAt text 0 = Some CHR ''='')"

subsection \<open>The lexer\<close>

text \<open>\<^verbatim>\<open>while (ch === ' ') { ch = expr[++pos]; }\<close>\<close>

function skipSpaces :: "string \<Rightarrow> nat \<Rightarrow> nat" where
  "skipSpaces expr i = (if charAt expr i = Some CHR '' '' then skipSpaces expr (i + 1) else i)"
  by pat_completeness auto
termination
  by (relation "measure (\<lambda>(expr, i). length expr - i)") (auto simp: charAt_def split: if_splits)

text \<open>
  \<^verbatim>\<open>do { const nextCh = expr[++pos]; if (!nextCh || !isCharacterOrNum(nextCh)) { break; } } while (true);\<close>
\<close>

function scanName :: "string \<Rightarrow> nat \<Rightarrow> nat" where
  "scanName expr i =
    (case charAt expr (i + 1) of
       None \<Rightarrow> i + 1
     | Some nextCh \<Rightarrow> if isCharacterOrNum nextCh then scanName expr (i + 1) else i + 1)"
  by pat_completeness auto
termination
  by (relation "measure (\<lambda>(expr, i). length expr - i)") (auto simp: charAt_def split: if_splits)

text \<open>\<^verbatim>\<open>do { ch = expr[++pos]; } while (ch && (isDigit(ch) || ch === '.'));\<close>\<close>

function scanNumber :: "string \<Rightarrow> nat \<Rightarrow> nat" where
  "scanNumber expr i =
    (case charAt expr (i + 1) of
       None \<Rightarrow> i + 1
     | Some ch \<Rightarrow> if isDigit ch \<or> ch = CHR ''.'' then scanNumber expr (i + 1) else i + 1)"
  by pat_completeness auto
termination
  by (relation "measure (\<lambda>(expr, i). length expr - i)") (auto simp: charAt_def split: if_splits)

text \<open>
  \<^verbatim>\<open>do { prevCh = ch; ch = expr[++pos]; } while ((ch !== "'" || prevCh === '\\') && ch !== undefined);\<close>
  The second argument is \<^verbatim>\<open>pos\<close>, the third is \<^verbatim>\<open>ch\<close> on entry of the body.
\<close>

function scanString :: "string \<Rightarrow> nat \<Rightarrow> char \<Rightarrow> nat" where
  "scanString expr i prevCh =
    (case charAt expr (i + 1) of
       None \<Rightarrow> i + 1
     | Some ch \<Rightarrow> if ch \<noteq> quote \<or> prevCh = backslash then scanString expr (i + 1) ch else i + 1)"
  by pat_completeness auto
termination
  by (relation "measure (\<lambda>(expr, i, prevCh). length expr - i)")
     (auto simp: charAt_def split: if_splits)

text \<open>
  \<^verbatim>\<open>sValue.replace(/\\([n'])/g, ...)\<close>: from left to right, a backslash followed by
  \<^verbatim>\<open>n\<close> becomes a new line and a backslash followed by a quote becomes the quote.
\<close>

fun unescape :: "string \<Rightarrow> string" where
  "unescape (c # d # rest) =
    (if c = backslash \<and> d = CHR ''n'' then newline # unescape rest
     else if c = backslash \<and> d = quote then quote # unescape rest
     else c # unescape (d # rest))"
| "unescape cs = cs"

definition setToken :: "string \<Rightarrow> nat \<Rightarrow> nat \<Rightarrow> TokenType \<Rightarrow> 'n Token \<Rightarrow> 'n Token" where
  "setToken expr startPos i aType t =
     t\<lparr> sValue := Some (Text (substring expr startPos i)), tkType := aType,
        tkClass := Type2Class aType \<rparr>"

text \<open>
  The end of \<^verbatim>\<open>parser\<close>:
  \<^verbatim>\<open>p.token.canBinOp = tkClass === TokenClass.Unary || tkClass === TokenClass.Binary\<close>.
\<close>

definition setCanBinOp :: "'n Token \<Rightarrow> 'n Token" where
  "setCanBinOp t = t\<lparr> canBinOp := (tkClass t = ClUnary \<or> tkClass t = ClBinary) \<rparr>"

text \<open>The branch \<^verbatim>\<open>if (isCharacter(ch))\<close>: variables, functions and named operators.\<close>

definition lexName :: "'n JSNumber \<Rightarrow> (string \<Rightarrow> 'n VarValue option) \<Rightarrow> string \<Rightarrow> nat
    \<Rightarrow> error + ('n Token \<times> nat)" where
  "lexName js vs expr startPos =
    (let i = scanName expr startPos in
     if charAt expr i = Some CHR ''('' then
       (let t = setToken expr startPos i TkFunction emptyToken;
            funcName = substring expr startPos i
        in if funcName = ''not''
           then Inr (t\<lparr> tkType := TkLogicalNot, tkClass := ClLogicalUnary \<rparr>, i)
           else Inr (t, i + 1))
     else
       (let t = setToken expr startPos i TkValue emptyToken;
            varName = substring expr startPos i
        in if varName = ''not'' then Inr (t\<lparr> tkType := TkLogicalNot, tkClass := ClLogicalUnary \<rparr>, i)
           else if varName = ''and'' then Inr (t\<lparr> tkType := TkLogicalAnd, tkClass := ClBinary \<rparr>, i)
           else if varName = ''or'' then Inr (t\<lparr> tkType := TkLogicalOr, tkClass := ClBinary \<rparr>, i)
           else (case vs varName of
               None \<Rightarrow> Inl (UnknownVariable varName)
             | Some (VString s) \<Rightarrow> Inr (t\<lparr> paType := Some PaString, sValue := Some (Text s) \<rparr>, i)
             | Some (VNumber n) \<Rightarrow>
                 Inr (t\<lparr> paType := Some PaNumber, numValue := Some n, sValue := None,
                        arrayValue := None \<rparr>, i)
             | Some (VArray a) \<Rightarrow>
                 Inr (t\<lparr> paType := Some PaArray, arrayValue := Some a, sValue := None,
                        numValue := None \<rparr>, i)
             | Some (VBoolean b) \<Rightarrow>
                 Inr (t\<lparr> paType := Some PaNumber, numValue := Some (bool2num js b),
                        sValue := None, arrayValue := None \<rparr>, i)
             | Some VOther \<Rightarrow> Inl (UnsupportedType varName))))"

text \<open>The branch \<^verbatim>\<open>if (isDigit(ch))\<close>; \<open>i\<close> is the position of the first digit.\<close>

definition lexNumber :: "'n JSNumber \<Rightarrow> string \<Rightarrow> nat \<Rightarrow> nat \<Rightarrow> error + ('n Token \<times> nat)" where
  "lexNumber js expr startPos i =
    (let j = scanNumber expr i;
         t = setToken expr startPos j TkValue emptyToken
     in Inr (t\<lparr> paType := Some PaNumber,
               numValue := Some (parseFloat js (substring expr startPos j)),
               sValue := None \<rparr>, j))"

text \<open>The branch \<^verbatim>\<open>if (ch === "'")\<close>.\<close>

definition lexString :: "string \<Rightarrow> nat \<Rightarrow> error + ('n Token \<times> nat)" where
  "lexString expr startPos =
    (let j = scanString expr startPos quote;
         t = setToken expr (startPos + 1) j TkValue emptyToken
     in Inr (t\<lparr> sValue := Some (Text (unescape (substring expr (startPos + 1) j))),
               paType := Some PaString \<rparr>, j + 1))"

text \<open>Equality, comparison and the symbols of \<^verbatim>\<open>Str2TokenType\<close>.\<close>

definition lexSymbol :: "string \<Rightarrow> nat \<Rightarrow> char \<Rightarrow> error + ('n Token \<times> nat)" where
  "lexSymbol expr startPos ch =
    (let two = (ch \<in> set ''=!<>'' \<and> charAt expr (startPos + 1) = Some CHR ''='');
         sym = (if two then [ch, CHR ''=''] else [ch]);
         i = (if two then startPos + 1 else startPos)
     in case Str2TokenType sym of
          None \<Rightarrow> Inl (UnknownToken sym i)
        | Some aType \<Rightarrow> Inr (setToken expr startPos (i + 1) aType emptyToken, i + 1))"

text \<open>
  \<^verbatim>\<open>parser(p, checkSign)\<close> reads one token of \<^verbatim>\<open>p.expr\<close> from \<^verbatim>\<open>p.pos\<close> and returns
  it with the position after it. The outer \<^verbatim>\<open>do ... while (true)\<close> of the source
  leaves by \<^verbatim>\<open>break\<close> or by \<^verbatim>\<open>throw\<close> on every path of its first pass.
\<close>

definition parser :: "'n JSNumber \<Rightarrow> (string \<Rightarrow> 'n VarValue option) \<Rightarrow> string \<Rightarrow> nat \<Rightarrow> bool
    \<Rightarrow> error + ('n Token \<times> nat)" where
  "parser js vs expr i checkSign =
    (let startPos = skipSpaces expr i in
     case charAt expr startPos of
       None \<Rightarrow> Inr (setCanBinOp emptyToken, startPos)
     | Some ch \<Rightarrow>
         bindE
           (if isCharacter ch then lexName js vs expr startPos
            else if checkSign \<and> (ch = CHR ''-'' \<or> ch = CHR ''+'') \<and> isDigitAt expr (startPos + 1)
              then lexNumber js expr startPos (startPos + 1)
            else if isDigit ch then lexNumber js expr startPos startPos
            else if ch = quote then lexString expr startPos
            else lexSymbol expr startPos ch)
           (\<lambda>(t, j). Inr (setCanBinOp t, j)))"

subsection \<open>Computing operators\<close>

text \<open>\<^verbatim>\<open>_comparePriority(op1, op2)\<close>\<close>

definition comparePriority :: "'n Token \<Rightarrow> 'n Token \<Rightarrow> bool" where
  "comparePriority op1 op2 = (opPriority (tkType op1) \<ge> opPriority (tkType op2))"

text \<open>\<^verbatim>\<open>_calcUnary(p, op, value)\<close> changes \<^verbatim>\<open>value\<close>; the changed token is returned.\<close>

definition calcUnary :: "'n JSNumber \<Rightarrow> 'n Token \<Rightarrow> 'n Token \<Rightarrow> error + 'n Token" where
  "calcUnary js op val =
    (if paType val \<noteq> Some PaNumber then Inl UnaryErr
     else if tkType op = TkMinus then Inr (val\<lparr> numValue := Some (negate js (numValue val)) \<rparr>)
     else if tkType op = TkLogicalNot
       then Inr (val\<lparr> numValue := Some (if truthy js (numValue val) then numZero js else numOne js) \<rparr>)
     else Inr val)"

text \<open>\<^verbatim>\<open>xs[i]\<close> of an array of JavaScript: \<^verbatim>\<open>undefined\<close> out of range.\<close>

definition elemAt :: "'a option list \<Rightarrow> nat \<Rightarrow> 'a option" where
  "elemAt xs i = (if i < length xs then xs ! i else None)"

text \<open>
  \<^verbatim>\<open>value1.arrayValue.forEach((v1, index) => { value1.arrayValue[index] = f(v1, value2.arrayValue[index]); })\<close>
  on the arrays at the addresses \<open>a1\<close> and \<open>a2\<close> of the store: each index in turn,
  read from and written to the store as it is at that moment.
\<close>

definition forEachIndex :: "('n option \<Rightarrow> 'n option \<Rightarrow> 'n) \<Rightarrow> ref \<Rightarrow> ref
    \<Rightarrow> (ref \<Rightarrow> 'n option list) \<Rightarrow> (ref \<Rightarrow> 'n option list)" where
  "forEachIndex f a1 a2 arrs =
     fold (\<lambda>index h. h(a1 := (h a1)[index := Some (f (elemAt (h a1) index) (elemAt (h a2) index))]))
       [0 ..< length (arrs a1)] arrs"

text \<open>
  \<^verbatim>\<open>execOp(f, allowOther)\<close> of \<^verbatim>\<open>_calcBinary\<close>. It returns its boolean, the variable
  \<^verbatim>\<open>v\<close>, the token \<^verbatim>\<open>value1\<close> and the store as it leaves them.
\<close>

definition execOp :: "('n option \<Rightarrow> 'n option \<Rightarrow> 'n) \<Rightarrow> bool \<Rightarrow> 'n Token \<Rightarrow> 'n Token
    \<Rightarrow> (ref \<Rightarrow> 'n option list)
    \<Rightarrow> error + (bool \<times> 'n option \<times> 'n Token \<times> (ref \<Rightarrow> 'n option list))" where
  "execOp f allowOther value1 value2 arrs =
    (let AnyNotNumber = (paType value1 \<noteq> Some PaNumber \<or> paType value2 \<noteq> Some PaNumber);
         is1stArray = (paType value1 = Some PaArray);
         is2ndArray = (paType value2 = Some PaArray)
     in if is1stArray \<or> is2ndArray then
          (if \<not> is1stArray \<or> \<not> is2ndArray then Inl CanOnlyAdd2Arrays
           else case arrayValue value1 of
               None \<Rightarrow> Inl TypeError
             | Some a1 \<Rightarrow> (case arrayValue value2 of
                   None \<Rightarrow> Inl TypeError
                 | Some a2 \<Rightarrow>
                     if length (arrs a1) \<noteq> length (arrs a2) then Inl ArraysSameValue
                     else Inr (True, None, value1\<lparr> paType := Some PaArray \<rparr>,
                               forEachIndex f a1 a2 arrs)))
        else if AnyNotNumber then
          (if allowOther then Inr (False, None, value1, arrs) else Inl OnlySupportsNumbers)
        else Inr (True, Some (f (numValue value1) (numValue value2)), value1, arrs))"

text \<open>
  The operands of the concatenation:
  \<^verbatim>\<open>value.paType === ExFuncParamType.Number ? value.numValue.toString() : value.sValue\<close>.
\<close>

definition operandText :: "'n JSNumber \<Rightarrow> 'n Token \<Rightarrow> error + 'n SValue option" where
  "operandText js val =
    (if paType val = Some PaNumber
     then (case numValue val of None \<Rightarrow> Inl TypeError | Some n \<Rightarrow> Inr (Some (Text (toString js n))))
     else Inr (sValue val))"

text \<open>
  \<^verbatim>\<open>a + b\<close> of JavaScript on two values that are a string, \<^verbatim>\<open>undefined\<close> or a
  number: a concatenation of texts as soon as one is a string.
\<close>

definition textOf :: "'n JSNumber \<Rightarrow> 'n SValue option \<Rightarrow> string" where
  "textOf js a = (case a of None \<Rightarrow> ''undefined'' | Some (Text s) \<Rightarrow> s
     | Some (NotText n) \<Rightarrow> toString js n)"

definition isText :: "'n SValue option \<Rightarrow> bool" where
  "isText a = (case a of Some (Text s) \<Rightarrow> True | _ \<Rightarrow> False)"

definition numberOf :: "'n SValue option \<Rightarrow> 'n option" where
  "numberOf a = (case a of Some (NotText n) \<Rightarrow> Some n | _ \<Rightarrow> None)"

definition jsPlus :: "'n JSNumber \<Rightarrow> 'n SValue option \<Rightarrow> 'n SValue option \<Rightarrow> 'n SValue" where
  "jsPlus js a b =
    (if isText a \<or> isText b then Text (textOf js a @ textOf js b)
     else NotText (arith js (numAdd js) (numberOf a) (numberOf b)))"

text \<open>\<^verbatim>\<open>NumbersOnly()\<close> followed by \<^verbatim>\<open>v = ... ? 1 : 0\<close>.\<close>

definition numbersOnly :: "'n JSNumber \<Rightarrow> 'n Token \<Rightarrow> 'n Token \<Rightarrow> (ref \<Rightarrow> 'n option list) \<Rightarrow> bool
    \<Rightarrow> error + ('n Token \<times> (ref \<Rightarrow> 'n option list))" where
  "numbersOnly js value1 value2 arrs b =
    (if paType value1 \<noteq> Some PaNumber \<or> paType value2 \<noteq> Some PaNumber
     then Inl OnlySupportsNumbers
     else Inr (value1\<lparr> numValue := Some (bool2num js b) \<rparr>, arrs))"

text \<open>An arithmetic case of the \<^verbatim>\<open>switch\<close>: \<^verbatim>\<open>execOp(f); break;\<close> and then
  \<^verbatim>\<open>value1.numValue = v\<close>.\<close>

definition execArith :: "('n option \<Rightarrow> 'n option \<Rightarrow> 'n) \<Rightarrow> 'n Token \<Rightarrow> 'n Token
    \<Rightarrow> (ref \<Rightarrow> 'n option list) \<Rightarrow> error + ('n Token \<times> (ref \<Rightarrow> 'n option list))" where
  "execArith f value1 value2 arrs =
     bindE (execOp f False value1 value2 arrs)
       (\<lambda>(ok, v, value1', arrs'). Inr (value1'\<lparr> numValue := v \<rparr>, arrs'))"

text \<open>
  \<^verbatim>\<open>_calcBinary(p, op, value1, value2)\<close> changes \<^verbatim>\<open>value1\<close> and, for arrays, the array
  of \<^verbatim>\<open>value1\<close>; the changed token and the changed store are returned.
\<close>

definition calcBinary :: "'n JSNumber \<Rightarrow> 'n Token \<Rightarrow> 'n Token \<Rightarrow> 'n Token
    \<Rightarrow> (ref \<Rightarrow> 'n option list) \<Rightarrow> error + ('n Token \<times> (ref \<Rightarrow> 'n option list))" where
  "calcBinary js op value1 value2 arrs =
    (case tkType op of
       TkPlus \<Rightarrow>
         bindE (execOp (arith js (numAdd js)) True value1 value2 arrs)
           (\<lambda>(ok, v, value1', arrs').
              if \<not> ok then
                bindE (operandText js value1') (\<lambda>a.
                bindE (operandText js value2) (\<lambda>b.
                  Inr (value1'\<lparr> sValue := Some (jsPlus js a b), paType := Some PaString \<rparr>, arrs')))
              else Inr (value1'\<lparr> numValue := v \<rparr>, arrs'))
     | TkMinus \<Rightarrow> execArith (arith js (numSub js)) value1 value2 arrs
     | TkMultiply \<Rightarrow> execArith (arith js (numMul js)) value1 value2 arrs
     | TkDivide \<Rightarrow> execArith (arith js (numDiv js)) value1 value2 arrs
     | TkMod \<Rightarrow> execArith (arith js (numMod js)) value1 value2 arrs
     | TkEqual \<Rightarrow>
         numbersOnly js value1 value2 arrs (strictEq js (numValue value1) (numValue value2))
     | TkDifferent \<Rightarrow>
         numbersOnly js value1 value2 arrs (\<not> strictEq js (numValue value1) (numValue value2))
     | TkLesser \<Rightarrow>
         numbersOnly js value1 value2 arrs (ordered (numLt js) (numValue value1) (numValue value2))
     | TkGreater \<Rightarrow>
         numbersOnly js value1 value2 arrs (ordered (numLt js) (numValue value2) (numValue value1))
     | TkLessEqual \<Rightarrow>
         numbersOnly js value1 value2 arrs (ordered (numLe js) (numValue value1) (numValue value2))
     | TkGreaterEqual \<Rightarrow>
         numbersOnly js value1 value2 arrs (ordered (numLe js) (numValue value2) (numValue value1))
     | TkLogicalAnd \<Rightarrow>
         numbersOnly js value1 value2 arrs
           (truthy js (numValue value1) \<and> truthy js (numValue value2))
     | TkLogicalOr \<Rightarrow>
         numbersOnly js value1 value2 arrs
           (truthy js (numValue value1) \<or> truthy js (numValue value2))
     | _ \<Rightarrow> Inr (value1\<lparr> numValue := None \<rparr>, arrs))"

subsection \<open>Results, arrays and functions\<close>

text \<open>What \<^verbatim>\<open>calcExpr\<close> returns: \<^verbatim>\<open>string | number | number[]\<close>, or \<^verbatim>\<open>undefined\<close>.\<close>

datatype 'n ExprResult = RString string | RNumber 'n | RArray ref | RUndefined

text \<open>\<^verbatim>\<open>_valueOfToken(token)\<close>\<close>

definition valueOfToken :: "'n Token \<Rightarrow> 'n ExprResult" where
  "valueOfToken token =
    (if paType token = Some PaString then
       (case sValue token of None \<Rightarrow> RUndefined | Some (Text s) \<Rightarrow> RString s
        | Some (NotText n) \<Rightarrow> RNumber n)
     else if paType token = Some PaArray then
       (case arrayValue token of None \<Rightarrow> RUndefined | Some a \<Rightarrow> RArray a)
     else (case numValue token of None \<Rightarrow> RUndefined | Some n \<Rightarrow> RNumber n))"

text \<open>
  \<^verbatim>\<open>_execArray(p, funcToken)\<close> makes a new array of the \<^verbatim>\<open>numValue\<close> of each parameter:
  a new address of the store.
\<close>

definition execArray :: "'n Token \<Rightarrow> 'n Env \<Rightarrow> error + ('n Token \<times> 'n Env)" where
  "execArray funcToken e =
    (case funcParams funcToken of
       None \<Rightarrow> Inl TypeError
     | Some params \<Rightarrow>
         Inr (\<lparr> paType = Some PaArray, sValue = None, numValue = None,
                arrayValue = Some (nextRef e), tkType = TkValue, tkClass = ClValue,
                canBinOp = False, funcParams = None \<rparr>,
              e\<lparr> arrays := (arrays e)(nextRef e := map numValue params),
                 nextRef := nextRef e + 1 \<rparr>))"

text \<open>
  The registry \<^verbatim>\<open>_exFunctions\<close> is filled by a file that is not among the sources, and
  by plugins: it is a parameter. A registered function receives its parameters and the
  request; it writes its result into \<^verbatim>\<open>req.res\<close>, it may read and write the variables
  and the arrays, and it may throw.
\<close>

type_synonym 'n ExFunction = "'n ExFuncParam list \<Rightarrow> 'n Env \<Rightarrow> error + ('n ExFuncParam \<times> 'n Env)"

type_synonym 'n Registry = "string \<Rightarrow> 'n ExFunction option"

text \<open>
  \<^verbatim>\<open>_execExprFunction(p, funcToken)\<close>: the function is looked up under the text of the
  token and called with \<^verbatim>\<open>funcToken.funcParams\<close>, the list every function token is given
  when it is pushed; what the function leaves in \<^verbatim>\<open>res\<close> is the value of the new token.
\<close>

definition execExprFunction :: "'n Registry \<Rightarrow> 'n Token \<Rightarrow> 'n Env \<Rightarrow> error + ('n Token \<times> 'n Env)" where
  "execExprFunction fns funcToken e =
    (case sValue funcToken of
       Some (Text funcName) \<Rightarrow>
         (case fns funcName of
            None \<Rightarrow> Inl (UnknownFunction (Some funcName))
          | Some func \<Rightarrow>
              (case funcParams funcToken of
                 None \<Rightarrow> Inl TypeError
               | Some params \<Rightarrow>
                   bindE (func params e)
                     (\<lambda>(res, e'). Inr (\<lparr> paType = paType res, sValue = sValue res,
                          numValue = numValue res, arrayValue = arrayValue res,
                          tkType = TkValue, tkClass = ClValue, canBinOp = False,
                          funcParams = None \<rparr>, e'))))
     | _ \<Rightarrow> Inl (UnknownFunction None))"

subsection \<open>The state machine\<close>

datatype States = IdAndUnary | NoUnary | Binary

text \<open>
  The variables of \<^verbatim>\<open>_stateMachine\<close> that live across the iterations of its loop, with
  the variables and arrays of the request. \<^verbatim>\<open>stackLast\<close> is kept by the source at
  \<^verbatim>\<open>stack.length - 1\<close> by every statement that changes the stack, as its declaration
  says; it is that expression here. The position \<^verbatim>\<open>p.pos\<close>, which the lexer alone
  changes, is an argument of the loop of its own.
\<close>

record 'n SM =
  stack :: "'n Token list"
  state :: States
  startPoint :: nat
  startPoints :: "nat list"
  env :: "'n Env"

definition stackLast :: "'n SM \<Rightarrow> int" where
  "stackLast st = int (length (stack st)) - 1"

text \<open>\<^verbatim>\<open>stack[i]\<close>: \<^verbatim>\<open>undefined\<close> out of range.\<close>

definition nthOpt :: "'a list \<Rightarrow> int \<Rightarrow> 'a option" where
  "nthOpt xs i = (if 0 \<le> i \<and> i < int (length xs) then Some (xs ! nat i) else None)"

definition push :: "'n Token \<Rightarrow> 'n SM \<Rightarrow> 'n SM" where
  "push token st = st\<lparr> stack := stack st @ [token] \<rparr>"

text \<open>
  \<^verbatim>\<open>_calcBinary(p, op, t1, t2)\<close> on the tokens at \<open>i\<close>, \<open>i + 1\<close> and \<open>i + 2\<close> of the
  stack, followed by the removal of the two upper ones: the body both reductions share.
  \<open>t1\<close> is changed where it stands.
\<close>

definition reduceAt :: "'n JSNumber \<Rightarrow> nat \<Rightarrow> 'n Token \<Rightarrow> 'n SM \<Rightarrow> error + 'n SM" where
  "reduceAt js i op st =
    (case nthOpt (stack st) (int i) of
       None \<Rightarrow> Inl TypeError
     | Some t1 \<Rightarrow> (case nthOpt (stack st) (int i + 2) of
           None \<Rightarrow> Inl TypeError
         | Some t2 \<Rightarrow>
             bindE (calcBinary js op t1 t2 (arrays (env st)))
               (\<lambda>(t1', arrs').
                  Inr (st\<lparr> stack := take (i + 1) ((stack st)[i := t1'])
                                     @ drop (i + 3) (stack st),
                          env := (env st)\<lparr> arrays := arrs' \<rparr> \<rparr>))))"

text \<open>
  \<^verbatim>\<open>calcStackLeft()\<close>:
  \<^verbatim>\<open>while (stackLast > 1 && stackLast > startPoint + 1) { op = stack[startPoint + 1]; if (!op.canBinOp) break; ...; stack.splice(startPoint + 1, 2); stackLast -= 2; }\<close>
\<close>

function calcStackLeft :: "'n JSNumber \<Rightarrow> 'n SM \<Rightarrow> error + 'n SM" where
  "calcStackLeft js st =
    (if stackLast st > 1 \<and> stackLast st > int (startPoint st) + 1 then
       (case nthOpt (stack st) (int (startPoint st) + 1) of
          None \<Rightarrow> Inl TypeError
        | Some op \<Rightarrow>
            if \<not> canBinOp op then Inr st
            else (case reduceAt js (startPoint st) op st of
                Inl e \<Rightarrow> Inl e
              | Inr st' \<Rightarrow> calcStackLeft js st'))
     else Inr st)"
  by pat_completeness auto
termination
  by (relation "measure (\<lambda>(js, st). length (stack st))")
     (auto simp: reduceAt_def bindE_def nthOpt_def split: option.splits sum.splits if_splits)

text \<open>
  \<^verbatim>\<open>calcStackRight()\<close>:
  \<^verbatim>\<open>while (stackLast > 2) { op = stack[stackLast - 1]; if (!op.canBinOp) break; ... prevOp = stack[stackLast - 3]; if (_comparePriority(op, prevOp)) { _calcBinary(p, op, t1, t2); stack.length = stackLast - 1; stackLast -= 2; } else break; }\<close>
  With \<open>t1\<close> at \<^verbatim>\<open>stackLast - 2\<close>, cutting the stack to the length \<^verbatim>\<open>stackLast - 1\<close>
  removes the two tokens above \<open>t1\<close>.
\<close>

function calcStackRight :: "'n JSNumber \<Rightarrow> 'n SM \<Rightarrow> error + 'n SM" where
  "calcStackRight js st =
    (if stackLast st > 2 then
       (case nthOpt (stack st) (stackLast st - 1) of
          None \<Rightarrow> Inl TypeError
        | Some op \<Rightarrow>
            if \<not> canBinOp op then Inr st
            else (case nthOpt (stack st) (stackLast st - 3) of
                None \<Rightarrow> Inl TypeError
              | Some prevOp \<Rightarrow>
                  if comparePriority op prevOp then
                    (case reduceAt js (nat (stackLast st - 2)) op st of
                       Inl e \<Rightarrow> Inl e
                     | Inr st' \<Rightarrow> calcStackRight js st')
                  else Inr st))
     else Inr st)"
  by pat_completeness auto
termination
  by (relation "measure (\<lambda>(js, st). length (stack st))")
     (auto simp: reduceAt_def bindE_def nthOpt_def split: option.splits sum.splits if_splits)

text \<open>
  \<^verbatim>\<open>onCloseParamOrArrayOrFunc()\<close>:
  \<^verbatim>\<open>calcStackLeft(); if (startPoint !== stackLast) { err(p, '', token); } token = stack.pop(); stackLast--;\<close>
  It returns the new \<^verbatim>\<open>token\<close>. Past the test the stack is not empty.
\<close>

definition onCloseParamOrArrayOrFunc :: "'n JSNumber \<Rightarrow> 'n SM \<Rightarrow> error + ('n Token \<times> 'n SM)" where
  "onCloseParamOrArrayOrFunc js st =
     bindE (calcStackLeft js st)
       (\<lambda>st'. if int (startPoint st') \<noteq> stackLast st' then Inl NoMessage
               else Inr (last (stack st'), st'\<lparr> stack := butlast (stack st') \<rparr>))"

text \<open>
  The condition of \<^verbatim>\<open>case TokenClass.Value\<close> under which the operator on top of the
  stack is applied to the value at once:
  \<^verbatim>\<open>state === States.NoUnary && [TokenClass.Unary, TokenClass.LogicalUnary].indexOf(stack[stackLast].tkClass) !== -1 && (stackLast === 0 || stack[stackLast - 1].tkClass !== TokenClass.Value)\<close>
\<close>

definition unaryPending :: "'n SM \<Rightarrow> error + bool" where
  "unaryPending st =
    (if state st \<noteq> NoUnary then Inr False
     else case nthOpt (stack st) (stackLast st) of
         None \<Rightarrow> Inl TypeError
       | Some onTop \<Rightarrow>
           if tkClass onTop \<noteq> ClUnary \<and> tkClass onTop \<noteq> ClLogicalUnary then Inr False
           else if stackLast st = 0 then Inr True
           else (case nthOpt (stack st) (stackLast st - 1) of
               None \<Rightarrow> Inl TypeError
             | Some below \<Rightarrow> Inr (tkClass below \<noteq> ClValue)))"

text \<open>
  \<^verbatim>\<open>case TokenClass.Value\<close>. \<^verbatim>\<open>op = pop(); _calcUnary(p, op, token);\<close> takes the
  operator off the stack and changes the token that is pushed next. The assignment
  \<^verbatim>\<open>state = States.IdAndUnary\<close> of that branch is overwritten by \<^verbatim>\<open>state = States.Binary\<close>.
\<close>

definition caseValue :: "'n JSNumber \<Rightarrow> 'n Token \<Rightarrow> 'n SM \<Rightarrow> error + 'n SM" where
  "caseValue js token st =
    (if state st = Binary then Inl NoMessage
     else bindE (unaryPending st) (\<lambda>pending.
       bindE (if pending
              then bindE (calcUnary js (last (stack st)) token)
                     (\<lambda>token'. Inr (token', st\<lparr> stack := butlast (stack st) \<rparr>))
              else Inr (token, st))
         (\<lambda>(token', st'). calcStackRight js (push token' (st'\<lparr> state := Binary \<rparr>)))))"

text \<open>
  \<^verbatim>\<open>case TokenClass.ArrayOpen\<close>, \<^verbatim>\<open>case TokenClass.Function\<close> (both set
  \<^verbatim>\<open>token.funcParams = []\<close>) and \<^verbatim>\<open>case TokenClass.ParamOpen\<close>.
\<close>

definition caseOpen :: "TokenClass \<Rightarrow> 'n Token \<Rightarrow> 'n SM \<Rightarrow> error + 'n SM" where
  "caseOpen thisTkClass token st =
    (let token' = (if thisTkClass = ClArrayOpen \<or> thisTkClass = ClFunction
                   then token\<lparr> funcParams := Some [] \<rparr> else token)
     in if state st = Binary then Inl NoMessage
        else (let st' = push token' st;
                  sp = nat (stackLast st' + 1)
              in Inr (st'\<lparr> startPoint := sp, startPoints := startPoints st' @ [sp],
                         state := IdAndUnary \<rparr>)))"

text \<open>\<^verbatim>\<open>funcToken.funcParams.push(token)\<close>, \<^verbatim>\<open>funcToken\<close> being the token at \<open>i\<close>.\<close>

definition pushParam :: "'n Token \<Rightarrow> nat \<Rightarrow> 'n SM \<Rightarrow> error + 'n SM" where
  "pushParam token i st =
    (case nthOpt (stack st) (int i) of
       None \<Rightarrow> Inl TypeError
     | Some funcToken \<Rightarrow> (case funcParams funcToken of
           None \<Rightarrow> Inl TypeError
         | Some params \<Rightarrow>
             Inr (st\<lparr> stack := (stack st)
                    [i := funcToken\<lparr> funcParams := Some (params @ [asParam token]) \<rparr>] \<rparr>)))"

text \<open>
  \<^verbatim>\<open>case TokenClass.Comma\<close>, \<^verbatim>\<open>case TokenClass.ParamClose\<close> and
  \<^verbatim>\<open>case TokenClass.ArrayClose\<close>. \<^verbatim>\<open>funcToken\<close> is \<^verbatim>\<open>stack[startPoint - 1]\<close>, below
  everything the reductions touch.
\<close>

definition caseClose :: "'n JSNumber \<Rightarrow> 'n Registry \<Rightarrow> TokenClass \<Rightarrow> 'n SM \<Rightarrow> error + 'n SM" where
  "caseClose js fns thisTkClass st =
    (if startPoint st = 0 then Inl MissingStartingParenthesis
     else case nthOpt (stack st) (int (startPoint st) - 1) of
         None \<Rightarrow> Inl TypeError
       | Some funcToken \<Rightarrow>
          (let isTokenComma = (thisTkClass = ClComma);
               isFunc = (tkClass funcToken = ClFunction);
               isArray = (tkClass funcToken = ClArrayOpen)
           in if isTokenComma \<and> \<not> isFunc \<and> \<not> isArray then Inl MissingFunction
              else
                bindE
                  (if (isFunc \<or> isArray) \<and> \<not> isTokenComma then
                     bindE
                       (if int (startPoint st) \<noteq> stackLast st + 1
                        then bindE (onCloseParamOrArrayOrFunc js st)
                               (\<lambda>(tok, st1). pushParam tok (startPoint st - 1) st1)
                        else Inr st)
                       (\<lambda>st2. case nthOpt (stack st2) (int (startPoint st) - 1) of
                            None \<Rightarrow> Inl TypeError
                          | Some funcToken' \<Rightarrow>
                              bindE (if isFunc then execExprFunction fns funcToken' (env st2)
                                     else execArray funcToken' (env st2))
                                (\<lambda>(tok, e'). Inr (tok, st2\<lparr> env := e' \<rparr>)))
                   else onCloseParamOrArrayOrFunc js st)
                  (\<lambda>(tok, st3).
                     if \<not> isTokenComma then
                       (let sps = butlast (startPoints st3)
                        in Inr (st3\<lparr> stack := (stack st3)[nat (stackLast st3) := tok],
                                   startPoints := sps,
                                   startPoint := (if sps = [] then 0 else last sps),
                                   state := Binary \<rparr>))
                     else bindE (pushParam tok (startPoint st - 1) st3)
                            (\<lambda>st4. Inr (st4\<lparr> state := IdAndUnary \<rparr>)))))"

text \<open>
  \<^verbatim>\<open>case TokenClass.LogicalUnary\<close> and \<^verbatim>\<open>case TokenClass.Unary\<close>, which flow to
  \<^verbatim>\<open>case TokenClass.Binary\<close> unless the state is \<^verbatim>\<open>IdAndUnary\<close>.
\<close>

definition caseOperator :: "'n JSNumber \<Rightarrow> TokenClass \<Rightarrow> 'n Token \<Rightarrow> 'n SM \<Rightarrow> error + 'n SM" where
  "caseOperator js thisTkClass token st =
    (if (thisTkClass = ClLogicalUnary \<or> thisTkClass = ClUnary) \<and> state st = IdAndUnary then
       Inr (push token (st\<lparr> state := (if thisTkClass = ClUnary then NoUnary else state st) \<rparr>))
     else if state st \<noteq> Binary then Inl NoMessage
     else
       bindE
         (if stackLast st > 0 \<and> tkClass (last (stack st)) = ClValue then
            (case nthOpt (stack st) (stackLast st - 1) of
               None \<Rightarrow> Inl TypeError
             | Some op \<Rightarrow> if canBinOp op \<and> comparePriority op token
                           then calcStackLeft js st else Inr st)
          else Inr st)
         (\<lambda>st'. Inr (push token (st'\<lparr> state := NoUnary \<rparr>))))"

text \<open>
  One pass through the body of the loop of \<^verbatim>\<open>_stateMachine\<close>, from the position \<open>i\<close>:
  the lexer is called with \<^verbatim>\<open>state !== States.Binary\<close>; \<open>Break\<close> is the \<^verbatim>\<open>break\<close> at
  the end of the input. The pass returns the position after the token with the variables
  of the state machine.
\<close>

datatype 'a Loop = Continue 'a | Break 'a

definition iteration :: "'n JSNumber \<Rightarrow> 'n Registry \<Rightarrow> string \<Rightarrow> nat \<Rightarrow> 'n SM
    \<Rightarrow> error + (nat \<times> 'n SM) Loop" where
  "iteration js fns expr i st =
     bindE (parser js (vars (env st)) expr i (state st \<noteq> Binary))
       (\<lambda>(token, j).
          let thisTkClass = tkClass token
          in if thisTkClass = ClNone then Inr (Break (j, st))
             else bindE
               (if thisTkClass = ClValue then caseValue js token st
                else if thisTkClass = ClArrayOpen \<or> thisTkClass = ClFunction
                        \<or> thisTkClass = ClParamOpen
                  then caseOpen thisTkClass token st
                else if thisTkClass = ClComma \<or> thisTkClass = ClParamClose
                        \<or> thisTkClass = ClArrayClose
                  then caseClose js fns thisTkClass st
                else caseOperator js thisTkClass token st)
               (\<lambda>st'. Inr (Continue (j, st'))))"

text \<open>\<^verbatim>\<open>do { ... } while (true);\<close> of \<^verbatim>\<open>_stateMachine\<close>.\<close>

partial_function (option) mainLoop :: "'n JSNumber \<Rightarrow> 'n Registry \<Rightarrow> string \<Rightarrow> nat \<Rightarrow> 'n SM
    \<Rightarrow> (error + 'n SM) option" where
  "mainLoop js fns expr i st =
    (case iteration js fns expr i st of
       Inl e \<Rightarrow> Some (Inl e)
     | Inr (Break (j, st')) \<Rightarrow> Some (Inr st')
     | Inr (Continue (j, st')) \<Rightarrow> mainLoop js fns expr j st')"

declare mainLoop.simps [code]

text \<open>
  The end of \<^verbatim>\<open>_stateMachine\<close>, after the loop. The block between \<^verbatim>\<open>#debug-start\<close> and
  \<^verbatim>\<open>#debug-end\<close>, which logs when \<^verbatim>\<open>p.args.isVerbose\<close> is set, is left out.
\<close>

definition finish :: "'n JSNumber \<Rightarrow> 'n SM \<Rightarrow> error + ('n ExprResult \<times> 'n Env)" where
  "finish js st =
     bindE (calcStackLeft js st)
       (\<lambda>st'. if length (stack st') \<noteq> 1 then Inl StackNotEmpty
               else if tkClass (last (stack st')) \<noteq> ClValue then Inl NotAValue
               else Inr (valueOfToken (hd (stack st')), env st'))"

text \<open>
  \<^verbatim>\<open>_stateMachine(p)\<close>, with \<^verbatim>\<open>p.pos\<close> as \<open>i\<close>. The result is \<open>None\<close> when the loop
  does not end, \<open>Some (Inl e)\<close> when \<open>e\<close> is thrown, and otherwise the value returned
  with the variables and the store as the call leaves them.
\<close>

definition stateMachine :: "'n JSNumber \<Rightarrow> 'n Registry \<Rightarrow> string \<Rightarrow> nat \<Rightarrow> 'n Env
    \<Rightarrow> (error + ('n ExprResult \<times> 'n Env)) option" where
  "stateMachine js fns expr i e =
    (case mainLoop js fns expr i
            \<lparr> stack = [], state = IdAndUnary, startPoint = 0, startPoints = [], env = e \<rparr> of
       None \<Rightarrow> None
     | Some (Inl err) \<Rightarrow> Some (Inl err)
     | Some (Inr st) \<Rightarrow> Some (finish js st))"

subsection \<open>Public functions\<close>

text \<open>\<^verbatim>\<open>calcExpr(expr, args)\<close>: the lexer starts after the leading \<^verbatim>\<open>=\<close>.\<close>

definition calcExpr :: "'n JSNumber \<Rightarrow> 'n Registry \<Rightarrow> string \<Rightarrow> 'n Env
    \<Rightarrow> (error + ('n ExprResult \<times> 'n Env)) option" where
  "calcExpr js fns expr e = stateMachine js fns expr 1 e"

text \<open>
  The text \<^verbatim>\<open>parseFloat\<close> reads when it is given a result: a string as it is, a number
  by \<^verbatim>\<open>toString\<close>, an array by joining its elements with commas (\<^verbatim>\<open>undefined\<close> gives an
  empty field).
\<close>

fun joinComma :: "string list \<Rightarrow> string" where
  "joinComma [] = []"
| "joinComma [x] = x"
| "joinComma (x # y # ys) = x @ '','' @ joinComma (y # ys)"

definition resultText :: "'n JSNumber \<Rightarrow> (ref \<Rightarrow> 'n option list) \<Rightarrow> 'n ExprResult \<Rightarrow> string" where
  "resultText js arrs r =
    (case r of
       RString s \<Rightarrow> s
     | RNumber n \<Rightarrow> toString js n
     | RArray a \<Rightarrow> joinComma (map (\<lambda>x. case x of None \<Rightarrow> [] | Some n \<Rightarrow> toString js n) (arrs a))
     | RUndefined \<Rightarrow> ''undefined'')"

definition isNumber :: "'n ExprResult \<Rightarrow> bool" where
  "isNumber r = (case r of RNumber n \<Rightarrow> True | _ \<Rightarrow> False)"

text \<open>
  \<^verbatim>\<open>ifExprCalcNum(expr, defNumber, args)\<close>, with \<^verbatim>\<open>args.isStrict\<close> as \<open>isStrict\<close>:
  \<^verbatim>\<open>if (!isExpr(expr)) { return defNumber; }\<close>,
  \<^verbatim>\<open>if (args.isStrict && exprValue !== undefined && typeof exprValue !== 'number') { throwI8n(Msgs.MustBeANumber, ...); }\<close>,
  \<^verbatim>\<open>return exprValue !== undefined ? parseFloat(exprValue as string) : defNumber;\<close>
\<close>

definition ifExprCalcNum :: "'n JSNumber \<Rightarrow> 'n Registry \<Rightarrow> string \<Rightarrow> 'n option \<Rightarrow> bool \<Rightarrow> 'n Env
    \<Rightarrow> (error + ('n option \<times> 'n Env)) option" where
  "ifExprCalcNum js fns expr defNumber isStrict e =
    (if \<not> isExpr expr then Some (Inr (defNumber, e))
     else case calcExpr js fns expr e of
         None \<Rightarrow> None
       | Some (Inl err) \<Rightarrow> Some (Inl err)
       | Some (Inr (exprValue, e')) \<Rightarrow>
           if isStrict \<and> exprValue \<noteq> RUndefined \<and> \<not> isNumber exprValue
           then Some (Inl MustBeANumber)
           else Some (Inr (if exprValue \<noteq> RUndefined
                           then Some (parseFloat js (resultText js (arrays e') exprValue))
                           else defNumber, e')))"

section \<open>An instance of the numbers\<close>

text \<open>
  To evaluate examples the primitives are instantiated by exact arithmetic: the rational
  numbers with \<^verbatim>\<open>NaN\<close> and the two infinities. The instance computes what the doubles
  compute wherever the operands and the exact result are doubles (the whole numbers of
  the examples are); it has no rounding, no overflow and one zero.
\<close>

datatype Exact = Finite rat | NotANumber | Infinity bool  \<comment> \<open>\<open>Infinity True\<close> is \<^verbatim>\<open>+Infinity\<close>\<close>

fun exNeg :: "Exact \<Rightarrow> Exact" where
  "exNeg (Finite a) = Finite (- a)"
| "exNeg NotANumber = NotANumber"
| "exNeg (Infinity s) = Infinity (\<not> s)"

fun exAdd :: "Exact \<Rightarrow> Exact \<Rightarrow> Exact" where
  "exAdd (Finite a) (Finite b) = Finite (a + b)"
| "exAdd (Finite a) (Infinity t) = Infinity t"
| "exAdd (Infinity s) (Finite b) = Infinity s"
| "exAdd (Infinity s) (Infinity t) = (if s = t then Infinity s else NotANumber)"
| "exAdd _ _ = NotANumber"

definition exSub :: "Exact \<Rightarrow> Exact \<Rightarrow> Exact" where
  "exSub a b = exAdd a (exNeg b)"

fun exMul :: "Exact \<Rightarrow> Exact \<Rightarrow> Exact" where
  "exMul (Finite a) (Finite b) = Finite (a * b)"
| "exMul (Finite a) (Infinity t) = (if a = 0 then NotANumber else Infinity (t = (0 < a)))"
| "exMul (Infinity s) (Finite b) = (if b = 0 then NotANumber else Infinity (s = (0 < b)))"
| "exMul (Infinity s) (Infinity t) = Infinity (s = t)"
| "exMul _ _ = NotANumber"

fun exDiv :: "Exact \<Rightarrow> Exact \<Rightarrow> Exact" where
  "exDiv (Finite a) (Finite b) =
     (if b = 0 then (if a = 0 then NotANumber else Infinity (0 < a)) else Finite (a / b))"
| "exDiv (Finite a) (Infinity t) = Finite 0"
| "exDiv (Infinity s) (Finite b) = Infinity (s = (0 \<le> b))"
| "exDiv _ _ = NotANumber"

text \<open>The remainder of JavaScript has the sign of the dividend.\<close>

fun exMod :: "Exact \<Rightarrow> Exact \<Rightarrow> Exact" where
  "exMod (Finite a) (Finite b) =
     (if b = 0 then NotANumber
      else Finite (a - b * of_int (if 0 \<le> a / b then \<lfloor>a / b\<rfloor> else \<lceil>a / b\<rceil>)))"
| "exMod (Finite a) (Infinity t) = Finite a"
| "exMod _ _ = NotANumber"

fun exEq :: "Exact \<Rightarrow> Exact \<Rightarrow> bool" where
  "exEq (Finite a) (Finite b) = (a = b)"
| "exEq (Infinity s) (Infinity t) = (s = t)"
| "exEq _ _ = False"

fun exLt :: "Exact \<Rightarrow> Exact \<Rightarrow> bool" where
  "exLt (Finite a) (Finite b) = (a < b)"
| "exLt (Finite a) (Infinity t) = t"
| "exLt (Infinity s) (Finite b) = (\<not> s)"
| "exLt (Infinity s) (Infinity t) = (\<not> s \<and> t)"
| "exLt _ _ = False"

fun exLe :: "Exact \<Rightarrow> Exact \<Rightarrow> bool" where
  "exLe (Finite a) (Finite b) = (a \<le> b)"
| "exLe (Finite a) (Infinity t) = t"
| "exLe (Infinity s) (Finite b) = (\<not> s)"
| "exLe (Infinity s) (Infinity t) = (s = t \<or> t)"
| "exLe _ _ = False"

fun exTruthy :: "Exact \<Rightarrow> bool" where
  "exTruthy (Finite a) = (a \<noteq> 0)"
| "exTruthy NotANumber = False"
| "exTruthy (Infinity s) = True"

text \<open>
  \<^verbatim>\<open>parseFloat\<close>: leading white space, a sign, then \<^verbatim>\<open>Infinity\<close> or the longest decimal
  literal (digits, a fraction, an exponent); \<^verbatim>\<open>NaN\<close> when there is no digit.
\<close>

definition isWhiteSpace :: "char \<Rightarrow> bool" where
  "isWhiteSpace c = (c \<in> set [CHR '' '', CHR 0x09, CHR 0x0A, CHR 0x0B, CHR 0x0C, CHR 0x0D])"

definition digitValue :: "char \<Rightarrow> nat" where
  "digitValue c = of_char c - of_char CHR ''0''"

definition digitsValue :: "string \<Rightarrow> nat" where
  "digitsValue ds = foldl (\<lambda>a c. 10 * a + digitValue c) 0 ds"

definition tenTo :: "int \<Rightarrow> rat" where
  "tenTo k = (if 0 \<le> k then 10 ^ nat k else 1 / 10 ^ nat (- k))"

definition exponentOf :: "string \<Rightarrow> int" where
  "exponentOf s =
    (if take 1 s = ''e'' \<or> take 1 s = ''E'' then
       (let s1 = drop 1 s;
            s2 = (if take 1 s1 = ''-'' \<or> take 1 s1 = ''+'' then drop 1 s1 else s1);
            ds = takeWhile isDigit s2
        in if ds = [] then 0
           else if take 1 s1 = ''-'' then - int (digitsValue ds) else int (digitsValue ds))
     else 0)"

definition exParseFloat :: "string \<Rightarrow> Exact" where
  "exParseFloat text =
    (let s0 = dropWhile isWhiteSpace text;
         negative = (take 1 s0 = ''-'');
         s1 = (if take 1 s0 = ''-'' \<or> take 1 s0 = ''+'' then drop 1 s0 else s0);
         whole = takeWhile isDigit s1;
         s2 = dropWhile isDigit s1;
         dot = (take 1 s2 = ''.'');
         frac = (if dot then takeWhile isDigit (drop 1 s2) else []);
         s3 = (if dot then dropWhile isDigit (drop 1 s2) else s2);
         magnitude = (of_nat (digitsValue whole) + of_nat (digitsValue frac) / 10 ^ length frac)
                     * tenTo (exponentOf s3)
     in if take 8 s1 = ''Infinity'' then Infinity (\<not> negative)
        else if whole = [] \<and> frac = [] then NotANumber
        else Finite (if negative then - magnitude else magnitude))"

text \<open>
  \<^verbatim>\<open>toString\<close>: with \<open>n\<close> the decimal exponent of \<open>x\<close> (\<open>10 ^ (n - 1) \<le> x < 10 ^ n\<close>) and
  \<open>k\<close> digits, the decimal notation when \<open>- 6 < n \<le> 21\<close> and the exponential notation
  otherwise. The instance prints at most 17 significant digits.
\<close>

function natDigits :: "nat \<Rightarrow> string" where
  "natDigits n = (if n < 10 then [''0123456789'' ! n]
                  else natDigits (n div 10) @ [''0123456789'' ! (n mod 10)])"
  by pat_completeness auto
termination
  by (relation "measure (\<lambda>n. n)") auto

definition decimalExponent :: "rat \<Rightarrow> int" where
  "decimalExponent x =
    (if 1 \<le> x then int (length (natDigits (nat \<lfloor>x\<rfloor>)))
     else 1 - int (length (natDigits (nat (\<lceil>1 / x\<rceil> - 1)))))"

definition stripZeros :: "string \<Rightarrow> string" where
  "stripZeros ds = rev (dropWhile (\<lambda>c. c = CHR ''0'') (rev ds))"

definition positiveToString :: "rat \<Rightarrow> string" where
  "positiveToString x =
    (let n = decimalExponent x;
         ds = stripZeros (natDigits (nat \<lfloor>x * tenTo (17 - n)\<rfloor>));
         k = int (length ds)
     in if k \<le> n \<and> n \<le> 21 then ds @ replicate (nat (n - k)) CHR ''0''
        else if 0 < n \<and> n \<le> 21 then take (nat n) ds @ ''.'' @ drop (nat n) ds
        else if - 6 < n \<and> n \<le> 0 then ''0.'' @ replicate (nat (- n)) CHR ''0'' @ ds
        else (if k = 1 then ds else take 1 ds @ ''.'' @ drop 1 ds)
             @ ''e'' @ (if 0 \<le> n - 1 then ''+'' else ''-'') @ natDigits (nat \<bar>n - 1\<bar>))"

fun exToString :: "Exact \<Rightarrow> string" where
  "exToString (Finite x) =
     (if x = 0 then ''0'' else if x < 0 then ''-'' @ positiveToString (- x)
      else positiveToString x)"
| "exToString NotANumber = ''NaN''"
| "exToString (Infinity s) = (if s then ''Infinity'' else ''-Infinity'')"

definition exact :: "Exact JSNumber" where
  "exact = \<lparr> parseFloat = exParseFloat, toString = exToString, numAdd = exAdd,
     numSub = exSub, numMul = exMul, numDiv = exDiv, numMod = exMod, numNeg = exNeg,
     numEq = exEq, numLt = exLt, numLe = exLe, numTruthy = exTruthy, numNaN = NotANumber,
     numZero = Finite 0, numOne = Finite 1 \<rparr>"

text \<open>An empty registry, and the variables \<^verbatim>\<open>_vars\<close> starts with, over an empty store.\<close>

definition noFunctions :: "'n Registry" where
  "noFunctions = (\<lambda>name. None)"

definition initialEnv :: "Exact Env" where
  "initialEnv = \<lparr> vars = [''e'' \<mapsto> VNumber (Finite (2718281828459045 / 10 ^ 15)),
                         ''pi'' \<mapsto> VNumber (Finite (3141592653589793 / 10 ^ 15)),
                         ''deg2rad'' \<mapsto> VNumber (Finite (17453292519943295 / 10 ^ 18)),
                         ''rad2deg'' \<mapsto> VNumber (Finite (5729577951308232 / 10 ^ 14))],
                  arrays = (\<lambda>a. []), nextRef = 0 \<rparr>"

section \<open>Notions and values of the statements\<close>

text \<open>
  The texts the lexer reads as one numeric literal where a sign may stand: an optional
  sign, a digit, then digits and points. The decimal notation of \<^verbatim>\<open>toString\<close> (a minus
  sign for a negative number, digits, a point and digits for a fraction) is of this form;
  its exponential notation (\<^verbatim>\<open>1e+21\<close>, \<^verbatim>\<open>1e-7\<close>) is not.
\<close>

definition isNumberText :: "string \<Rightarrow> bool" where
  "isNumberText s =
    (case s of
       [] \<Rightarrow> False
     | c # cs \<Rightarrow>
         if c = CHR ''-'' \<or> c = CHR ''+''
         then (case cs of
                 [] \<Rightarrow> False
               | d # ds \<Rightarrow> isDigit d \<and> list_all (\<lambda>x. isDigit x \<or> x = CHR ''.'') ds)
         else isDigit c \<and> list_all (\<lambda>x. isDigit x \<or> x = CHR ''.'') cs)"

text \<open>Tokens and a store to evaluate the operators on.\<close>

definition plusToken :: "'n Token" where
  "plusToken = \<lparr> paType = None, sValue = Some (Text ''+''), numValue = None, arrayValue = None,
     tkType = TkPlus, tkClass = ClUnary, canBinOp = True, funcParams = None \<rparr>"

definition minusToken :: "'n Token" where
  "minusToken = \<lparr> paType = None, sValue = Some (Text ''-''), numValue = None, arrayValue = None,
     tkType = TkMinus, tkClass = ClUnary, canBinOp = True, funcParams = None \<rparr>"

definition numberToken :: "'n \<Rightarrow> 'n Token" where
  "numberToken n = \<lparr> paType = Some PaNumber, sValue = None, numValue = Some n,
     arrayValue = None, tkType = TkValue, tkClass = ClValue, canBinOp = False,
     funcParams = None \<rparr>"

definition stringToken :: "string \<Rightarrow> 'n Token" where
  "stringToken s = \<lparr> paType = Some PaString, sValue = Some (Text s), numValue = None,
     arrayValue = None, tkType = TkValue, tkClass = ClValue, canBinOp = False,
     funcParams = None \<rparr>"

definition arrayToken :: "ref \<Rightarrow> 'n Token" where
  "arrayToken a = \<lparr> paType = Some PaArray, sValue = None, numValue = None,
     arrayValue = Some a, tkType = TkValue, tkClass = ClValue, canBinOp = False,
     funcParams = None \<rparr>"

definition exampleArrays :: "ref \<Rightarrow> Exact option list" where
  "exampleArrays = (\<lambda>a. [])
     (0 := [Some (Finite 2), Some (Finite 3)],
      1 := [Some (Finite 4), Some (Finite 5)],
      2 := [Some (Finite 4), Some (Finite 5), Some (Finite 6)])"

text \<open>
  A run of spaces, and the names the lexer reads as a variable: a letter followed by
  letters and digits, other than the names of the logical operators.
\<close>

definition isSpaces :: "string \<Rightarrow> bool" where
  "isSpaces s = list_all (\<lambda>c. c = CHR '' '') s"

definition isVariableName :: "string \<Rightarrow> bool" where
  "isVariableName s =
    (case s of
       [] \<Rightarrow> False
     | c # cs \<Rightarrow> isCharacter c \<and> list_all isCharacterOrNum cs
         \<and> s \<noteq> ''not'' \<and> s \<noteq> ''and'' \<and> s \<noteq> ''or'')"

text \<open>
  A variable context in which \<^verbatim>\<open>myArr\<close> is the array of 10 and 20 and \<^verbatim>\<open>other\<close>
  the array of 3 and 4.
\<close>

definition arrayEnv :: "Exact Env" where
  "arrayEnv = \<lparr> vars = [''myArr'' \<mapsto> VArray 0, ''other'' \<mapsto> VArray 1],
                arrays = (\<lambda>a. [])(0 := [Some (Finite 10), Some (Finite 20)],
                                     1 := [Some (Finite 3), Some (Finite 4)]),
                nextRef = 2 \<rparr>"

section \<open>Properties\<close>

text \<open>
  The equations of the loops are unfolded where a proof asks for them. The lists below
  hold what evaluates the lexer, the state machine, the operators and the instance of
  the numbers on a given expression.
\<close>

declare skipSpaces.simps [simp del] scanName.simps [simp del] scanNumber.simps [simp del]
  scanString.simps [simp del] calcStackLeft.simps [simp del] calcStackRight.simps [simp del]
  natDigits.simps [simp del]

lemmas lexer_defs = parser_def lexNumber_def lexName_def lexString_def lexSymbol_def charAt_def
  isCharacter_def isDigit_def isDigitAt_def CharRanges_def setToken_def setCanBinOp_def
  emptyToken_def substring_def quote_def backslash_def newline_def Str2TokenType_def
  isCharacterOrNum_def skipSpaces.simps scanName.simps scanNumber.simps scanString.simps

lemmas machine_defs = iteration_def caseValue_def caseOpen_def caseClose_def caseOperator_def
  unaryPending_def pushParam_def onCloseParamOrArrayOrFunc_def push_def stackLast_def nthOpt_def
  reduceAt_def comparePriority_def finish_def stateMachine_def calcExpr_def valueOfToken_def
  execArray_def execExprFunction_def asParam_def bindE_def Let_def mainLoop.simps
  calcStackLeft.simps calcStackRight.simps

lemmas compute_defs = calcBinary_def calcUnary_def execOp_def execArith_def numbersOnly_def
  operandText_def jsPlus_def textOf_def isText_def numberOf_def arith_def strictEq_def
  ordered_def truthy_def negate_def bool2num_def forEachIndex_def elemAt_def

lemmas exact_defs = exact_def exParseFloat_def isWhiteSpace_def digitsValue_def digitValue_def
  tenTo_def exponentOf_def exSub_def positiveToString_def decimalExponent_def stripZeros_def
  natDigits.simps noFunctions_def initialEnv_def

subsection \<open>The logical not\<close>

text \<open>
  C2. The lexer reads \<^verbatim>\<open>not\<close> as the operator \<open>TkLogicalNot\<close> and \<open>calcUnary\<close> has
  its case, but the state machine leaves the state at \<open>IdAndUnary\<close> when it pushes that
  operator, so the value that follows is pushed beside it, not combined with it: the
  evaluation of \<^verbatim>\<open>=not(0)\<close>, and of \<^verbatim>\<open>=not 0\<close>, ends with two tokens on the stack and
  throws \<^verbatim>\<open>Stack not empty\<close>, whatever the numbers, the functions and the variables.
\<close>

theorem logical_not_throws:
  "calcExpr js fns ''=not(0)'' e = Some (Inl StackNotEmpty)
   \<and> calcExpr js fns ''=not 0'' e = Some (Inl StackNotEmpty)"
  by (simp add: lexer_defs machine_defs compute_defs)

subsection \<open>Operator precedence\<close>

text \<open>
  C1. The evaluation does not follow the precedence of the operators. After a closing
  parenthesis no reduction to the right takes place, and the reduction to the left that
  ends the evaluation goes from left to right whatever the operators are: \<^verbatim>\<open>=1 + 2 * (3)\<close>
  is computed as \<open>(1 + 2) * 3\<close>. The reduction to the right folds an operator as soon as
  it binds at least as tight as the one before it, without a look at the one after it:
  \<^verbatim>\<open>=14 == 2 + 3 * 4\<close> is computed as \<open>14 == ((2 + 3) * 4)\<close>. In exact arithmetic the
  two evaluations return 9 and 0, where the precedence of the operators gives 7 and 1.
  The arithmetic of the example in the documentation of the source,
  \<^verbatim>\<open>=12.4 + 51 / 2 * (60 % 4)\<close> with the value of \<^verbatim>\<open>ceil(50.5)\<close> written out, is computed
  as \<open>(12.4 + 51 / 2) * (60 % 4)\<close>.
\<close>

theorem precedence_not_followed:
  "calcExpr js fns ''=1 + 2 * (3)'' e
     = Some (Inr (RNumber (numMul js (numAdd js (parseFloat js ''1'') (parseFloat js ''2''))
                                    (parseFloat js ''3'')), e))
   \<and> calcExpr js fns ''=14 == 2 + 3 * 4'' e
     = Some (Inr (RNumber (bool2num js (numEq js (parseFloat js ''14'')
          (numMul js (numAdd js (parseFloat js ''2'') (parseFloat js ''3''))
                     (parseFloat js ''4'')))), e))
   \<and> calcExpr js fns ''=12.4 + 51 / 2 * (60 % 4)'' e
     = Some (Inr (RNumber (numMul js
          (numAdd js (parseFloat js ''12.4'') (numDiv js (parseFloat js ''51'') (parseFloat js ''2'')))
          (numMod js (parseFloat js ''60'') (parseFloat js ''4''))), e))
   \<and> calcExpr exact noFunctions ''=1 + 2 * (3)'' initialEnv
     = Some (Inr (RNumber (Finite 9), initialEnv))
   \<and> calcExpr exact noFunctions ''=14 == 2 + 3 * 4'' initialEnv
     = Some (Inr (RNumber (Finite 0), initialEnv))"
  by (simp add: lexer_defs machine_defs compute_defs exact_defs)

subsection \<open>Helpers: the lexer at the end of the input, expressions of one value\<close>

lemma skipSpaces_stays: "charAt expr i \<noteq> Some CHR '' '' \<Longrightarrow> skipSpaces expr i = i"
  by (subst skipSpaces.simps) simp

lemma parser_at_end:
  "length expr \<le> i \<Longrightarrow> parser js vs expr i checkSign = Inr (setCanBinOp emptyToken, i)"
  by (simp add: parser_def skipSpaces_stays charAt_def)

text \<open>
  An expression in which the lexer finds one value token, and then the end of the input,
  evaluates to the value of that token.
\<close>

lemma calcExpr_single_value:
  assumes first: "parser js (vars e) expr 1 True = Inr (tok, j)"
    and cls: "tkClass tok = ClValue"
    and stop: "length expr \<le> j"
  shows "calcExpr js fns expr e = Some (Inr (valueOfToken tok, e))"
proof -
  let ?st0 = "\<lparr> stack = [], state = IdAndUnary, startPoint = 0, startPoints = [], env = e \<rparr>"
  let ?st1 = "\<lparr> stack = [tok], state = Binary, startPoint = 0, startPoints = [], env = e \<rparr>"
  have second: "parser js (vars e) expr j False = Inr (setCanBinOp emptyToken, j)"
    using stop by (rule parser_at_end)
  have it1: "iteration js fns expr 1 ?st0 = Inr (Continue (j, ?st1))"
    unfolding iteration_def
    using first cls
    by (simp add: bindE_def caseValue_def unaryPending_def push_def
        calcStackRight.simps stackLast_def Let_def)
  have it2: "iteration js fns expr j ?st1 = Inr (Break (j, ?st1))"
    unfolding iteration_def
    by (simp add: second bindE_def setCanBinOp_def emptyToken_def Let_def)
  have loop: "mainLoop js fns expr 1 ?st0 = Some (Inr ?st1)"
    by (subst mainLoop.simps, simp only: it1 sum.case Loop.case prod.case,
        subst mainLoop.simps, simp only: it2 sum.case Loop.case prod.case)
  have fin: "finish js ?st1 = Inr (valueOfToken tok, e)"
    by (simp add: finish_def calcStackLeft.simps stackLast_def bindE_def cls)
  show ?thesis
    unfolding calcExpr_def stateMachine_def
    by (simp only: loop fin option.case sum.case)
qed

subsection \<open>Strings without a closing quote\<close>

lemma scanString_no_quote:
  "i < length expr \<Longrightarrow> quote \<notin> set (drop (i + 1) expr) \<Longrightarrow> scanString expr i c = length expr"
proof (induction expr i c rule: scanString.induct)
  case (1 expr i prevCh)
  show ?case
  proof (cases "charAt expr (i + 1)")
    case None
    with "1.prems" show ?thesis
      by (subst scanString.simps) (auto simp: charAt_def split: if_splits)
  next
    case (Some ch)
    then have lt: "i + 1 < length expr" and ch: "ch = expr ! (i + 1)"
      by (auto simp: charAt_def split: if_splits)
    from lt have "expr ! (i + 1) \<in> set (drop (i + 1) expr)"
      by (metis Cons_nth_drop_Suc list.set_intros(1))
    with "1.prems" ch have nq: "ch \<noteq> quote" by auto
    have "set (drop (i + 1 + 1) expr) \<subseteq> set (drop (i + 1) expr)"
      by (metis set_drop_subset_set_drop le_add1)
    with "1.prems" have "quote \<notin> set (drop (i + 1 + 1) expr)" by blast
    with "1.IH" [OF Some] nq lt have "scanString expr (i + 1) ch = length expr" by simp
    with Some nq show ?thesis
      by (subst scanString.simps) simp
  qed
qed

lemma quote_class:
  "\<not> isCharacter quote" "\<not> isDigit quote" "quote \<noteq> CHR '' ''" "quote \<noteq> CHR ''-''"
  "quote \<noteq> CHR ''+''"
  by (simp_all add: quote_def isCharacter_def isDigit_def CharRanges_def)

lemma parser_unterminated_string:
  assumes "charAt expr i = Some quote" and "quote \<notin> set (drop (i + 1) expr)"
  shows "parser js vs expr i checkSign
    = Inr (\<lparr> paType = Some PaString, sValue = Some (Text (unescape (drop (i + 1) expr))),
             numValue = None, arrayValue = None, tkType = TkValue, tkClass = ClValue,
             canBinOp = False, funcParams = None \<rparr>, length expr + 1)"
proof -
  from assms(1) have lt: "i < length expr"
    by (auto simp: charAt_def split: if_splits)
  have skip: "skipSpaces expr i = i"
    using assms(1) by (simp add: skipSpaces_stays quote_class)
  have scan: "scanString expr i quote = length expr"
    using lt assms(2) by (rule scanString_no_quote)
  have sub: "substring expr (Suc i) (length expr) = drop (Suc i) expr"
    using lt by (simp add: substring_def max_def min_def)
  show ?thesis
    using assms(1)
    by (simp add: parser_def skip lexString_def scan sub bindE_def setToken_def setCanBinOp_def
        emptyToken_def quote_class Let_def)
qed

text \<open>
  C3, as the code has it. A string literal whose opening quote is followed by no other
  quote is not an error: in any expression \<open>pre @ [quote] @ s\<close> the lexer, called at the
  opening quote, ends the literal at the end of the input and returns a string token
  that holds \<open>s\<close> with its escapes replaced; and the expression that is \<^verbatim>\<open>=\<close>, a quote
  and \<open>s\<close> evaluates to that text.
\<close>

theorem unterminated_string_is_a_value:
  assumes "quote \<notin> set s"
  shows "parser js vs (pre @ [quote] @ s) (length pre) checkSign
      = Inr (\<lparr> paType = Some PaString, sValue = Some (Text (unescape s)),
               numValue = None, arrayValue = None, tkType = TkValue, tkClass = ClValue,
               canBinOp = False, funcParams = None \<rparr>, length pre + length s + 2)
    \<and> calcExpr js fns (''='' @ [quote] @ s) e = Some (Inr (RString (unescape s), e))"
proof
  show "parser js vs (pre @ [quote] @ s) (length pre) checkSign
      = Inr (\<lparr> paType = Some PaString, sValue = Some (Text (unescape s)),
               numValue = None, arrayValue = None, tkType = TkValue, tkClass = ClValue,
               canBinOp = False, funcParams = None \<rparr>, length pre + length s + 2)"
    using parser_unterminated_string [of "pre @ [quote] @ s" "length pre" js vs checkSign] assms
    by (simp add: charAt_def)
next
  let ?expr = "''='' @ [quote] @ s"
  let ?tok = "\<lparr> paType = Some PaString, sValue = Some (Text (unescape s)),
             numValue = None, arrayValue = None, tkType = TkValue, tkClass = ClValue,
             canBinOp = False, funcParams = None \<rparr> :: 'a Token"
  have "parser js (vars e) ?expr 1 True = Inr (?tok, length ?expr + 1)"
    using parser_unterminated_string [of ?expr 1 js "vars e" True] assms
    by (simp add: charAt_def)
  then have "calcExpr js fns ?expr e = Some (Inr (valueOfToken ?tok, e))"
    by (rule calcExpr_single_value) simp_all
  then show "calcExpr js fns ?expr e = Some (Inr (RString (unescape s), e))"
    by (simp add: valueOfToken_def)
qed

theorem unterminated_string_is_a_value_witness:
  "quote \<notin> set ''abc''
   \<and> parser exact (vars initialEnv) (''=1 + '' @ [quote] @ ''abc'') 5 False
      = Inr (\<lparr> paType = Some PaString, sValue = Some (Text ''abc''),
               numValue = None, arrayValue = None, tkType = TkValue, tkClass = ClValue,
               canBinOp = False, funcParams = None \<rparr>, 10)
   \<and> calcExpr exact noFunctions (''='' @ [quote] @ ''abc'') initialEnv
      = Some (Inr (RString ''abc'', initialEnv))"
proof -
  have h: "quote \<notin> set ''abc''"
    by (simp add: quote_def)
  show ?thesis
    using h unterminated_string_is_a_value
      [OF h, of exact "vars initialEnv" "''=1 + ''" False noFunctions initialEnv]
    by (simp add: quote_def backslash_def eval_nat_numeral)
qed

text \<open>
  C3, as it is stated, fails: \<^verbatim>\<open>='abc\<close> opens a string that no quote closes, and its
  evaluation returns \<^verbatim>\<open>abc\<close>.
\<close>

theorem unterminated_string_counterexample:
  "calcExpr exact noFunctions (''='' @ [quote] @ ''abc'') initialEnv
     = Some (Inr (RString ''abc'', initialEnv))"
  by (simp add: lexer_defs machine_defs compute_defs exact_defs)

subsection \<open>Numbers written by toString\<close>

lemma scanNumber_to_end:
  "i < length expr \<Longrightarrow> list_all (\<lambda>x. isDigit x \<or> x = CHR ''.'') (drop (i + 1) expr)
    \<Longrightarrow> scanNumber expr i = length expr"
proof (induction expr i rule: scanNumber.induct)
  case (1 expr i)
  show ?case
  proof (cases "charAt expr (i + 1)")
    case None
    with "1.prems" show ?thesis
      by (subst scanNumber.simps) (auto simp: charAt_def split: if_splits)
  next
    case (Some ch)
    then have lt: "i + 1 < length expr" and ch: "ch = expr ! (i + 1)"
      by (auto simp: charAt_def split: if_splits)
    from lt have split: "drop (i + 1) expr = expr ! (i + 1) # drop (i + 1 + 1) expr"
      by (simp add: Cons_nth_drop_Suc)
    with "1.prems" ch have ok: "isDigit ch \<or> ch = CHR ''.''"
      and rest: "list_all (\<lambda>x. isDigit x \<or> x = CHR ''.'') (drop (i + 1 + 1) expr)"
      by auto
    from "1.IH" [OF Some ok lt rest] have "scanNumber expr (i + 1) = length expr" .
    with Some ok show ?thesis
      by (subst scanNumber.simps) simp
  qed
qed

lemma digit_class:
  "isDigit c \<Longrightarrow> \<not> isCharacter c" "isDigit c \<Longrightarrow> c \<noteq> CHR '' ''"
  "isDigit c \<Longrightarrow> c \<noteq> CHR ''-''" "isDigit c \<Longrightarrow> c \<noteq> CHR ''+''"
  by (auto simp: isDigit_def isCharacter_def CharRanges_def)

lemma sign_class:
  "\<not> isCharacter CHR ''-''" "\<not> isCharacter CHR ''+''"
  by (simp_all add: isCharacter_def CharRanges_def)

text \<open>
  Where a sign may stand, a sign followed by a digit starts a number: the literal goes
  from the sign to the end of the digits and points, and \<^verbatim>\<open>parseFloat\<close> reads all of it.
\<close>

lemma parser_signed_number:
  assumes "charAt expr i = Some c" and "c = CHR ''-'' \<or> c = CHR ''+''"
    and "isDigitAt expr (i + 1)"
  shows "parser js vs expr i True
    = Inr (\<lparr> paType = Some PaNumber, sValue = None,
             numValue = Some (parseFloat js (substring expr i (scanNumber expr (i + 1)))),
             arrayValue = None, tkType = TkValue, tkClass = ClValue, canBinOp = False,
             funcParams = None \<rparr>, scanNumber expr (i + 1))"
proof -
  from assms(2) have nospace: "c \<noteq> CHR '' ''" and noletter: "\<not> isCharacter c"
    by (auto simp: sign_class)
  have skip: "skipSpaces expr i = i"
    using nospace by (intro skipSpaces_stays) (simp add: assms(1))
  show ?thesis
    using assms noletter
    by (simp add: parser_def skip lexNumber_def bindE_def setToken_def setCanBinOp_def
        emptyToken_def Let_def)
qed

lemma parser_unsigned_number:
  assumes "charAt expr i = Some c" and "isDigit c"
  shows "parser js vs expr i checkSign
    = Inr (\<lparr> paType = Some PaNumber, sValue = None,
             numValue = Some (parseFloat js (substring expr i (scanNumber expr i))),
             arrayValue = None, tkType = TkValue, tkClass = ClValue, canBinOp = False,
             funcParams = None \<rparr>, scanNumber expr i)"
proof -
  from assms(2) have nospace: "c \<noteq> CHR '' ''" and noletter: "\<not> isCharacter c"
    and nosign: "c \<noteq> CHR ''-''" "c \<noteq> CHR ''+''"
    by (auto simp: digit_class)
  have skip: "skipSpaces expr i = i"
    using nospace by (intro skipSpaces_stays) (simp add: assms(1))
  show ?thesis
    using assms noletter nosign
    by (simp add: parser_def skip lexNumber_def bindE_def setToken_def setCanBinOp_def
        emptyToken_def Let_def)
qed

lemma parser_number_text:
  assumes "isNumberText s"
  shows "parser js vs (''='' @ s) 1 True
    = Inr (\<lparr> paType = Some PaNumber, sValue = None, numValue = Some (parseFloat js s),
             arrayValue = None, tkType = TkValue, tkClass = ClValue, canBinOp = False,
             funcParams = None \<rparr>, length s + 1)"
proof -
  let ?expr = "''='' @ s"
  from assms obtain c cs where s: "s = c # cs"
    by (cases s) (auto simp: isNumberText_def)
  have ch: "charAt ?expr 1 = Some c"
    by (simp add: charAt_def s)
  have sub: "substring ?expr 1 (length ?expr) = s"
    by (simp add: substring_def)
  show ?thesis
  proof (cases "c = CHR ''-'' \<or> c = CHR ''+''")
    case True
    with assms s obtain d ds where cs: "cs = d # ds" and d: "isDigit d"
      and ds: "list_all (\<lambda>x. isDigit x \<or> x = CHR ''.'') ds"
      by (cases cs) (auto simp: isNumberText_def)
    have dg: "isDigitAt ?expr (1 + 1)"
      by (simp add: isDigitAt_def charAt_def s cs d)
    have scan: "scanNumber ?expr (1 + 1) = length ?expr"
      by (rule scanNumber_to_end) (simp_all add: s cs ds)
    show ?thesis
      unfolding parser_signed_number [OF ch True dg] scan sub by simp
  next
    case False
    with assms s have c: "isDigit c" and r: "list_all (\<lambda>x. isDigit x \<or> x = CHR ''.'') cs"
      by (auto simp: isNumberText_def)
    have scan: "scanNumber ?expr 1 = length ?expr"
      by (rule scanNumber_to_end) (simp_all add: s r)
    show ?thesis
      unfolding parser_unsigned_number [OF ch c] scan sub by simp
  qed
qed

text \<open>
  C4, as the code has it. The lexer reads a sign, digits and points, and no exponent:
  for every number \<open>n\<close> that \<^verbatim>\<open>toString\<close> writes in decimal notation and \<^verbatim>\<open>parseFloat\<close>
  reads back, the evaluation of \<^verbatim>\<open>"=" + n.toString()\<close> returns \<open>n\<close>.
\<close>

theorem decimal_notation_round_trip:
  assumes "isNumberText (toString js n)" and "parseFloat js (toString js n) = n"
  shows "calcExpr js fns (''='' @ toString js n) e = Some (Inr (RNumber n, e))"
proof -
  let ?tok = "\<lparr> paType = Some PaNumber, sValue = None,
             numValue = Some (parseFloat js (toString js n)), arrayValue = None,
             tkType = TkValue, tkClass = ClValue, canBinOp = False,
             funcParams = None \<rparr> :: 'a Token"
  have "parser js (vars e) (''='' @ toString js n) 1 True = Inr (?tok, length (toString js n) + 1)"
    using assms(1) by (rule parser_number_text)
  then have "calcExpr js fns (''='' @ toString js n) e = Some (Inr (valueOfToken ?tok, e))"
    by (rule calcExpr_single_value) simp_all
  then show ?thesis
    using assms(2) by (simp add: valueOfToken_def)
qed

theorem decimal_notation_round_trip_witness:
  "isNumberText (toString exact (Finite (- 5)))
   \<and> parseFloat exact (toString exact (Finite (- 5))) = Finite (- 5)
   \<and> calcExpr exact noFunctions (''='' @ toString exact (Finite (- 5))) initialEnv
      = Some (Inr (RNumber (Finite (- 5)), initialEnv))"
proof -
  have str: "toString exact (Finite (- 5)) = ''-5''"
    by (simp add: exact_defs)
  have h1: "isNumberText (toString exact (Finite (- 5)))"
    unfolding str by (simp add: isNumberText_def isDigit_def)
  have h2: "parseFloat exact (toString exact (Finite (- 5))) = Finite (- 5)"
    unfolding str by (simp add: exact_defs isDigit_def Let_def)
  show ?thesis
    using h1 h2 decimal_notation_round_trip [OF h1 h2, of noFunctions initialEnv]
    by simp
qed

text \<open>
  C4, as it is stated, fails: \<open>10 ^ 21\<close> is a finite number, \<^verbatim>\<open>toString\<close> writes it
  \<^verbatim>\<open>1e+21\<close>, and the evaluation of \<^verbatim>\<open>=1e+21\<close> throws: the lexer ends the number before
  \<^verbatim>\<open>e\<close>, which it reads as the variable of that name where an operator must stand.
\<close>

theorem exponential_notation_counterexample:
  "toString exact (Finite (10 ^ 21)) = ''1e+21''
   \<and> calcExpr exact noFunctions (''='' @ toString exact (Finite (10 ^ 21))) initialEnv
      = Some (Inl NoMessage)"
proof -
  have str: "toString exact (Finite (10 ^ 21)) = ''1e+21''"
    by (simp add: exact_defs)
  have "calcExpr exact noFunctions ''=1e+21'' initialEnv = Some (Inl NoMessage)"
    by (simp add: lexer_defs machine_defs compute_defs exact_defs)
  with str show ?thesis by simp
qed

subsection \<open>Arrays\<close>

text \<open>
  The loop over the indices computes the array of the results, also when both operands
  are the same array.
\<close>

lemma update_at_border:
  assumes "length done = k" and "k < length xs"
  shows "(done @ drop k xs)[k := v] = (done @ [v]) @ drop (Suc k) xs"
proof -
  have "drop k xs = xs ! k # drop (Suc k) xs"
    using assms(2) by (simp add: Cons_nth_drop_Suc)
  then have "(done @ drop k xs)[k := v] = (done @ xs ! k # drop (Suc k) xs)[length done := v]"
    using assms(1) by simp
  also have "\<dots> = done @ v # drop (Suc k) xs"
    by (simp only: list_update_length)
  finally show ?thesis by simp
qed

lemma forEachIndex_steps:
  assumes "length xs = length ys" and "arrs a1 = xs" and "arrs a2 = ys" and "k \<le> length xs"
  shows "fold (\<lambda>index h. h(a1 := (h a1)[index := Some (f (elemAt (h a1) index) (elemAt (h a2) index))]))
           [0 ..< k] arrs
         = arrs(a1 := map (\<lambda>(x, y). Some (f x y)) (take k (zip xs ys)) @ drop k xs)"
  using assms(4)
proof (induction k)
  case 0
  show ?case using assms(2) by (auto simp: fun_eq_iff)
next
  case (Suc k)
  let ?done = "map (\<lambda>(x, y). Some (f x y)) (take k (zip xs ys))"
  let ?h = "arrs(a1 := ?done @ drop k xs)"
  from Suc.prems have k: "k < length xs" by simp
  with assms(1) have k2: "k < length ys" by simp
  have len: "length ?done = k"
    using k k2 by simp
  have x: "elemAt (?h a1) k = xs ! k"
    using k len by (simp add: elemAt_def nth_append)
  have y: "elemAt (?h a2) k = ys ! k"
  proof (cases "a2 = a1")
    case True
    with assms(2,3) have "ys = xs" by simp
    with True x show ?thesis by simp
  next
    case False
    with k2 assms(3) show ?thesis by (simp add: elemAt_def)
  qed
  have next_done: "map (\<lambda>(x, y). Some (f x y)) (take (Suc k) (zip xs ys))
      = ?done @ [Some (f (xs ! k) (ys ! k))]"
    using k k2 by (simp add: take_Suc_conv_app_nth)
  let ?F = "\<lambda>index h. h(a1 := (h a1)[index := Some (f (elemAt (h a1) index) (elemAt (h a2) index))])"
  from k have "k \<le> length xs" by simp
  then have ih: "fold ?F [0 ..< k] arrs = ?h"
    by (rule Suc.IH)
  have "fold ?F [0 ..< Suc k] arrs = ?F k (fold ?F [0 ..< k] arrs)"
    by simp
  also have "\<dots> = ?h(a1 := (?h a1)[k := Some (f (elemAt (?h a1) k) (elemAt (?h a2) k))])"
    by (simp only: ih)
  also have "\<dots> = arrs(a1 := (?done @ drop k xs)[k := Some (f (xs ! k) (ys ! k))])"
    unfolding x y by simp
  also have "\<dots> = arrs(a1 := (?done @ [Some (f (xs ! k) (ys ! k))]) @ drop (Suc k) xs)"
    by (simp only: update_at_border [OF len k])
  finally show ?case
    unfolding next_done .
qed

lemma forEachIndex_eq:
  assumes "length (arrs a1) = length (arrs a2)"
  shows "forEachIndex f a1 a2 arrs
         = arrs(a1 := map (\<lambda>(x, y). Some (f x y)) (zip (arrs a1) (arrs a2)))"
proof -
  have "fold (\<lambda>index h. h(a1 := (h a1)[index := Some (f (elemAt (h a1) index) (elemAt (h a2) index))]))
           [0 ..< length (arrs a1)] arrs
         = arrs(a1 := map (\<lambda>(x, y). Some (f x y)) (take (length (arrs a1)) (zip (arrs a1) (arrs a2)))
              @ drop (length (arrs a1)) (arrs a1))"
    by (rule forEachIndex_steps [where xs = "arrs a1" and ys = "arrs a2"]) (simp_all add: assms)
  then show ?thesis
    using assms by (simp add: forEachIndex_def)
qed

text \<open>
  C5. For each of the operators \<^verbatim>\<open>+ - * / %\<close>, with \<open>f\<close> its operation on numbers:
  two arrays of one length are combined element by element, the results written into
  the array of the left operand, which is the array of the result; two arrays of
  different lengths, and an array with an operand that is not an array, are errors.
  \<^verbatim>\<open>=[2,3] + [4,5]\<close> evaluates to the array of 6 and 8, and \<^verbatim>\<open>=[2,3] + [4,5,6]\<close> and
  \<^verbatim>\<open>=[2,3] + 1\<close> throw.
\<close>

theorem arrays_combine_elementwise:
  assumes "(tkType op, f) \<in> set [(TkPlus, numAdd js), (TkMinus, numSub js),
             (TkMultiply, numMul js), (TkDivide, numDiv js), (TkMod, numMod js)]"
  shows "(paType v1 = Some PaArray \<and> arrayValue v1 = Some a1
          \<and> paType v2 = Some PaArray \<and> arrayValue v2 = Some a2
          \<and> length (arrs a1) = length (arrs a2)
        \<longrightarrow> calcBinary js op v1 v2 arrs
            = Inr (v1\<lparr> numValue := None \<rparr>,
                   arrs(a1 := map (\<lambda>(x, y). Some (arith js f x y)) (zip (arrs a1) (arrs a2)))))
    \<and> (paType v1 = Some PaArray \<and> arrayValue v1 = Some a1
          \<and> paType v2 = Some PaArray \<and> arrayValue v2 = Some a2
          \<and> length (arrs a1) \<noteq> length (arrs a2)
        \<longrightarrow> calcBinary js op v1 v2 arrs = Inl ArraysSameValue)
    \<and> ((paType v1 = Some PaArray) \<noteq> (paType v2 = Some PaArray)
        \<longrightarrow> calcBinary js op v1 v2 arrs = Inl CanOnlyAdd2Arrays)
    \<and> (\<exists>r e'. calcExpr exact noFunctions ''=[2,3] + [4,5]'' initialEnv = Some (Inr (RArray r, e'))
          \<and> arrays e' r = [Some (Finite 6), Some (Finite 8)])
    \<and> calcExpr exact noFunctions ''=[2,3] + [4,5,6]'' initialEnv = Some (Inl ArraysSameValue)
    \<and> calcExpr exact noFunctions ''=[2,3] + 1'' initialEnv = Some (Inl CanOnlyAdd2Arrays)"
proof -
  from assms have ops: "tkType op = TkPlus \<and> f = numAdd js \<or> tkType op = TkMinus \<and> f = numSub js
    \<or> tkType op = TkMultiply \<and> f = numMul js \<or> tkType op = TkDivide \<and> f = numDiv js
    \<or> tkType op = TkMod \<and> f = numMod js"
    by auto
  have same: "calcBinary js op v1 v2 arrs
            = Inr (v1\<lparr> numValue := None \<rparr>,
                   arrs(a1 := map (\<lambda>(x, y). Some (arith js f x y)) (zip (arrs a1) (arrs a2))))"
    if "paType v1 = Some PaArray" "arrayValue v1 = Some a1" "paType v2 = Some PaArray"
       "arrayValue v2 = Some a2" "length (arrs a1) = length (arrs a2)"
    using ops that
    by (auto simp: calcBinary_def execArith_def execOp_def bindE_def forEachIndex_eq)
  have differ: "calcBinary js op v1 v2 arrs = Inl ArraysSameValue"
    if "paType v1 = Some PaArray" "arrayValue v1 = Some a1" "paType v2 = Some PaArray"
       "arrayValue v2 = Some a2" "length (arrs a1) \<noteq> length (arrs a2)"
    using ops that
    by (auto simp: calcBinary_def execArith_def execOp_def bindE_def)
  have mixed: "calcBinary js op v1 v2 arrs = Inl CanOnlyAdd2Arrays"
    if "(paType v1 = Some PaArray) \<noteq> (paType v2 = Some PaArray)"
    using ops that
    by (auto simp: calcBinary_def execArith_def execOp_def bindE_def)
  have ex1: "\<exists>r e'. calcExpr exact noFunctions ''=[2,3] + [4,5]'' initialEnv = Some (Inr (RArray r, e'))
          \<and> arrays e' r = [Some (Finite 6), Some (Finite 8)]"
    by (simp add: lexer_defs machine_defs compute_defs exact_defs)
  have ex2: "calcExpr exact noFunctions ''=[2,3] + [4,5,6]'' initialEnv = Some (Inl ArraysSameValue)"
    by (simp add: lexer_defs machine_defs compute_defs exact_defs)
  have ex3: "calcExpr exact noFunctions ''=[2,3] + 1'' initialEnv = Some (Inl CanOnlyAdd2Arrays)"
    by (simp add: lexer_defs machine_defs compute_defs exact_defs)
  from same differ mixed ex1 ex2 ex3 show ?thesis
    by blast
qed

theorem arrays_combine_elementwise_witness:
  "(tkType (plusToken :: Exact Token), numAdd exact)
      \<in> set [(TkPlus, numAdd exact), (TkMinus, numSub exact), (TkMultiply, numMul exact),
              (TkDivide, numDiv exact), (TkMod, numMod exact)]
   \<and> (\<exists>t h. calcBinary exact plusToken (arrayToken 0) (arrayToken 1) exampleArrays = Inr (t, h)
         \<and> arrayValue t = Some 0 \<and> h 0 = [Some (Finite 6), Some (Finite 8)])
   \<and> calcBinary exact plusToken (arrayToken 0) (arrayToken 2) exampleArrays = Inl ArraysSameValue
   \<and> calcBinary exact plusToken (arrayToken 0) (numberToken (Finite 1)) exampleArrays
        = Inl CanOnlyAdd2Arrays"
proof -
  have h: "(tkType (plusToken :: Exact Token), numAdd exact)
      \<in> set [(TkPlus, numAdd exact), (TkMinus, numSub exact), (TkMultiply, numMul exact),
              (TkDivide, numDiv exact), (TkMod, numMod exact)]"
    by (simp add: plusToken_def)
  show ?thesis
    using h
      arrays_combine_elementwise [OF h, of "arrayToken 0" 0 "arrayToken 1" 1 exampleArrays]
      arrays_combine_elementwise [OF h, of "arrayToken 0" 0 "arrayToken 2" 2 exampleArrays]
      arrays_combine_elementwise [OF h, of "arrayToken 0" 0 "numberToken (Finite 1)" 0 exampleArrays]
    by (simp add: arrayToken_def numberToken_def exampleArrays_def arith_def exact_def)
qed

subsection \<open>Concatenation\<close>

text \<open>
  C6. For the operator \<^verbatim>\<open>+\<close> on two scalars of which one at least is a string, both
  operands are turned into text, a number by \<^verbatim>\<open>toString\<close>, and the result is the string
  of the two texts: \<^verbatim>\<open>='A' + 'Beamer'\<close> evaluates to \<^verbatim>\<open>ABeamer\<close> and \<^verbatim>\<open>=1 + 'x'\<close> to
  the text of 1 followed by \<^verbatim>\<open>x\<close>, which is \<^verbatim>\<open>1x\<close>.
\<close>

theorem plus_concatenates_text:
  assumes "tkType op = TkPlus"
  shows "(paType v1 = Some PaString \<and> sValue v1 = Some (Text s1)
          \<and> paType v2 = Some PaString \<and> sValue v2 = Some (Text s2)
        \<longrightarrow> calcBinary js op v1 v2 arrs
            = Inr (v1\<lparr> sValue := Some (Text (s1 @ s2)), paType := Some PaString \<rparr>, arrs))
    \<and> (paType v1 = Some PaNumber \<and> numValue v1 = Some n1
          \<and> paType v2 = Some PaString \<and> sValue v2 = Some (Text s2)
        \<longrightarrow> calcBinary js op v1 v2 arrs
            = Inr (v1\<lparr> sValue := Some (Text (toString js n1 @ s2)), paType := Some PaString \<rparr>,
                   arrs))
    \<and> (paType v1 = Some PaString \<and> sValue v1 = Some (Text s1)
          \<and> paType v2 = Some PaNumber \<and> numValue v2 = Some n2
        \<longrightarrow> calcBinary js op v1 v2 arrs
            = Inr (v1\<lparr> sValue := Some (Text (s1 @ toString js n2)), paType := Some PaString \<rparr>,
                   arrs))
    \<and> calcExpr js fns (''='' @ [quote] @ ''A'' @ [quote] @ '' + '' @ [quote] @ ''Beamer'' @ [quote]) e
        = Some (Inr (RString ''ABeamer'', e))
    \<and> calcExpr js fns (''=1 + '' @ [quote] @ ''x'' @ [quote]) e
        = Some (Inr (RString (toString js (parseFloat js ''1'') @ ''x''), e))
    \<and> calcExpr exact noFunctions (''=1 + '' @ [quote] @ ''x'' @ [quote]) initialEnv
        = Some (Inr (RString ''1x'', initialEnv))"
proof -
  have ss: "calcBinary js op v1 v2 arrs
            = Inr (v1\<lparr> sValue := Some (Text (s1 @ s2)), paType := Some PaString \<rparr>, arrs)"
    if "paType v1 = Some PaString" "sValue v1 = Some (Text s1)"
       "paType v2 = Some PaString" "sValue v2 = Some (Text s2)"
    using assms that by (simp add: compute_defs bindE_def)
  have ns: "calcBinary js op v1 v2 arrs
            = Inr (v1\<lparr> sValue := Some (Text (toString js n1 @ s2)), paType := Some PaString \<rparr>,
                   arrs)"
    if "paType v1 = Some PaNumber" "numValue v1 = Some n1"
       "paType v2 = Some PaString" "sValue v2 = Some (Text s2)"
    using assms that by (simp add: compute_defs bindE_def)
  have sn: "calcBinary js op v1 v2 arrs
            = Inr (v1\<lparr> sValue := Some (Text (s1 @ toString js n2)), paType := Some PaString \<rparr>,
                   arrs)"
    if "paType v1 = Some PaString" "sValue v1 = Some (Text s1)"
       "paType v2 = Some PaNumber" "numValue v2 = Some n2"
    using assms that by (simp add: compute_defs bindE_def)
  have ex1: "calcExpr js fns (''='' @ [quote] @ ''A'' @ [quote] @ '' + '' @ [quote] @ ''Beamer'' @ [quote]) e
        = Some (Inr (RString ''ABeamer'', e))"
    by (simp add: lexer_defs machine_defs compute_defs)
  have ex2: "calcExpr js fns (''=1 + '' @ [quote] @ ''x'' @ [quote]) e
        = Some (Inr (RString (toString js (parseFloat js ''1'') @ ''x''), e))"
    by (simp add: lexer_defs machine_defs compute_defs)
  have ex3: "calcExpr exact noFunctions (''=1 + '' @ [quote] @ ''x'' @ [quote]) initialEnv
        = Some (Inr (RString ''1x'', initialEnv))"
    by (simp add: lexer_defs machine_defs compute_defs exact_defs)
  from ss ns sn ex1 ex2 ex3 show ?thesis
    by blast
qed

theorem plus_concatenates_text_witness:
  "tkType (plusToken :: Exact Token) = TkPlus
   \<and> calcBinary exact plusToken (stringToken ''A'') (stringToken ''Beamer'') exampleArrays
        = Inr (stringToken ''ABeamer'', exampleArrays)
   \<and> (\<exists>t. calcBinary exact plusToken (numberToken (Finite 1)) (stringToken ''x'') exampleArrays
              = Inr (t, exampleArrays)
            \<and> paType t = Some PaString \<and> sValue t = Some (Text ''1x''))
   \<and> calcBinary exact plusToken (stringToken ''x'') (numberToken (Finite 1)) exampleArrays
        = Inr (stringToken ''x1'', exampleArrays)"
proof -
  have h: "tkType (plusToken :: Exact Token) = TkPlus"
    by (simp add: plusToken_def)
  have one: "toString exact (Finite 1) = ''1''"
    by (simp add: exact_defs)
  show ?thesis
    using h one
      plus_concatenates_text [OF h, of "stringToken ''A''" "''A''" "stringToken ''Beamer''"
        "''Beamer''" exact exampleArrays "Finite 1" "Finite 1" noFunctions initialEnv]
      plus_concatenates_text [OF h, of "numberToken (Finite 1)" "''A''" "stringToken ''x''"
        "''x''" exact exampleArrays "Finite 1" "Finite 1" noFunctions initialEnv]
      plus_concatenates_text [OF h, of "stringToken ''x''" "''x''" "numberToken (Finite 1)"
        "''A''" exact exampleArrays "Finite 1" "Finite 1" noFunctions initialEnv]
    by (simp add: stringToken_def numberToken_def)
qed

subsection \<open>The numeric wrapper\<close>

text \<open>
  C7, as the code has it. When the input is an expression whose value is a string or an
  array, \<^verbatim>\<open>ifExprCalcNum\<close> throws \<^verbatim>\<open>MustBeANumber\<close> in strict mode; when the mode is not
  strict it returns what \<^verbatim>\<open>parseFloat\<close> reads in the text of that value, not the
  default. The default is what it returns for an input that is not an expression.
\<close>

theorem ifExprCalcNum_on_other_types:
  assumes "isExpr expr" and "calcExpr js fns expr e = Some (Inr (r, e'))"
    and "r \<noteq> RUndefined" and "\<not> isNumber r"
  shows "ifExprCalcNum js fns expr defNumber True e = Some (Inl MustBeANumber)
    \<and> ifExprCalcNum js fns expr defNumber False e
        = Some (Inr (Some (parseFloat js (resultText js (arrays e') r)), e'))
    \<and> (\<not> isExpr other \<longrightarrow> ifExprCalcNum js fns other defNumber isStrict e = Some (Inr (defNumber, e)))"
  using assms by (simp add: ifExprCalcNum_def)

theorem ifExprCalcNum_on_other_types_witness:
  "isExpr (''='' @ [quote] @ ''12'' @ [quote])
   \<and> calcExpr exact noFunctions (''='' @ [quote] @ ''12'' @ [quote]) initialEnv
        = Some (Inr (RString ''12'', initialEnv))
   \<and> RString ''12'' \<noteq> (RUndefined :: Exact ExprResult)
   \<and> \<not> isNumber (RString ''12'' :: Exact ExprResult)
   \<and> ifExprCalcNum exact noFunctions (''='' @ [quote] @ ''12'' @ [quote]) (Some (Finite 7)) True
        initialEnv = Some (Inl MustBeANumber)
   \<and> ifExprCalcNum exact noFunctions (''='' @ [quote] @ ''12'' @ [quote]) (Some (Finite 7)) False
        initialEnv = Some (Inr (Some (Finite 12), initialEnv))
   \<and> ifExprCalcNum exact noFunctions ''12'' (Some (Finite 7)) False initialEnv
        = Some (Inr (Some (Finite 7), initialEnv))"
proof -
  have h1: "isExpr (''='' @ [quote] @ ''12'' @ [quote])"
    by (simp add: isExpr_def charAt_def)
  have h2: "calcExpr exact noFunctions (''='' @ [quote] @ ''12'' @ [quote]) initialEnv
        = Some (Inr (RString ''12'', initialEnv))"
    by (simp add: lexer_defs machine_defs compute_defs exact_defs)
  have h3: "RString ''12'' \<noteq> (RUndefined :: Exact ExprResult)"
    by simp
  have h4: "\<not> isNumber (RString ''12'' :: Exact ExprResult)"
    by (simp add: isNumber_def)
  have read: "parseFloat exact ''12'' = Finite 12"
    by (simp add: exact_defs isDigit_def)
  have h5: "\<not> isExpr ''12''"
    by (simp add: isExpr_def charAt_def)
  show ?thesis
    using h1 h2 h3 h4 h5 read
      ifExprCalcNum_on_other_types [OF h1 h2 h3 h4, where defNumber = "Some (Finite 7)"
        and other = "''12''" and isStrict = False]
    by (simp add: resultText_def)
qed

text \<open>
  C7, as it is stated, fails: the value of \<^verbatim>\<open>='12'\<close> is a string, and without the
  strict mode \<^verbatim>\<open>ifExprCalcNum\<close> with the default 7 returns 12; for \<^verbatim>\<open>='abc'\<close> it returns
  \<^verbatim>\<open>NaN\<close>.
\<close>

theorem ifExprCalcNum_counterexample:
  "ifExprCalcNum exact noFunctions (''='' @ [quote] @ ''12'' @ [quote]) (Some (Finite 7)) False
      initialEnv = Some (Inr (Some (Finite 12), initialEnv))
   \<and> ifExprCalcNum exact noFunctions (''='' @ [quote] @ ''abc'' @ [quote]) (Some (Finite 7)) False
      initialEnv = Some (Inr (Some NotANumber, initialEnv))"
  by (simp add: ifExprCalcNum_def isExpr_def resultText_def isNumber_def
      lexer_defs machine_defs compute_defs exact_defs)

subsection \<open>The sign of a number\<close>

lemma parser_sign_operator:
  assumes "charAt expr i = Some c" and "c = CHR ''-'' \<or> c = CHR ''+''"
  shows "parser js vs expr i False
    = Inr (\<lparr> paType = None, sValue = Some (Text [c]), numValue = None, arrayValue = None,
             tkType = (if c = CHR ''-'' then TkMinus else TkPlus), tkClass = ClUnary,
             canBinOp = True, funcParams = None \<rparr>, i + 1)"
proof -
  from assms(2) have nospace: "c \<noteq> CHR '' ''" and noletter: "\<not> isCharacter c"
    and nodigit: "\<not> isDigit c" and noquote: "c \<noteq> quote"
    by (auto simp: sign_class isDigit_def quote_def)
  have skip: "skipSpaces expr i = i"
    using nospace by (intro skipSpaces_stays) (simp add: assms(1))
  from assms(1) have lt: "i < length expr" and c: "expr ! i = c"
    by (auto simp: charAt_def split: if_splits)
  have sub: "substring expr i (Suc i) = [c]"
    using lt c by (simp add: substring_def max_def min_def take_Suc_conv_app_nth
        Cons_nth_drop_Suc [symmetric])
  show ?thesis
    using assms noletter nodigit noquote sub
    by (auto simp: parser_def skip lexSymbol_def bindE_def setToken_def setCanBinOp_def
        emptyToken_def Str2TokenType_def Let_def)
qed

text \<open>
  C8. The state machine calls the lexer with \<open>checkSign\<close> true unless its state is
  \<open>Binary\<close>, the state after a value or a closed group. With \<open>checkSign\<close> a sign
  followed by a digit starts the literal, which \<^verbatim>\<open>parseFloat\<close> reads with its sign;
  without it the same sign is an operator token. So \<^verbatim>\<open>=-5 * -3\<close> is the product of the
  numbers read in \<^verbatim>\<open>-5\<close> and in \<^verbatim>\<open>-3\<close>, which is 15.
\<close>

theorem sign_is_part_of_the_literal:
  "calcExpr js fns ''=-5 * -3'' e
     = Some (Inr (RNumber (numMul js (parseFloat js ''-5'') (parseFloat js ''-3'')), e))
   \<and> calcExpr exact noFunctions ''=-5 * -3'' initialEnv
     = Some (Inr (RNumber (Finite 15), initialEnv))
   \<and> (charAt expr i = Some c \<and> (c = CHR ''-'' \<or> c = CHR ''+'') \<and> isDigitAt expr (i + 1)
      \<longrightarrow> parser js vs expr i True
          = Inr (\<lparr> paType = Some PaNumber, sValue = None,
                   numValue = Some (parseFloat js (substring expr i (scanNumber expr (i + 1)))),
                   arrayValue = None, tkType = TkValue, tkClass = ClValue, canBinOp = False,
                   funcParams = None \<rparr>, scanNumber expr (i + 1))
        \<and> parser js vs expr i False
          = Inr (\<lparr> paType = None, sValue = Some (Text [c]), numValue = None,
                   arrayValue = None, tkType = (if c = CHR ''-'' then TkMinus else TkPlus),
                   tkClass = ClUnary, canBinOp = True, funcParams = None \<rparr>, i + 1))"
proof -
  have ex1: "calcExpr js fns ''=-5 * -3'' e
     = Some (Inr (RNumber (numMul js (parseFloat js ''-5'') (parseFloat js ''-3'')), e))"
    by (simp add: lexer_defs machine_defs compute_defs)
  have ex2: "calcExpr exact noFunctions ''=-5 * -3'' initialEnv
     = Some (Inr (RNumber (Finite 15), initialEnv))"
    by (simp add: lexer_defs machine_defs compute_defs exact_defs)
  from ex1 ex2 parser_signed_number [of expr i c js vs] parser_sign_operator [of expr i c js vs]
  show ?thesis
    by blast
qed

theorem sign_is_part_of_the_literal_witness:
  "charAt ''=-5 * -3'' 6 = Some CHR ''-'' \<and> isDigitAt ''=-5 * -3'' (6 + 1)
   \<and> parser exact (vars initialEnv) ''=-5 * -3'' 6 True
       = Inr (numberToken (Finite (- 3)), 8)
   \<and> parser exact (vars initialEnv) ''=-5 * -3'' 6 False
       = Inr (\<lparr> paType = None, sValue = Some (Text ''-''), numValue = None, arrayValue = None,
                tkType = TkMinus, tkClass = ClUnary, canBinOp = True, funcParams = None \<rparr>, 7)"
proof -
  have h1: "charAt ''=-5 * -3'' 6 = Some CHR ''-''"
    by (simp add: charAt_def)
  have h2: "isDigitAt ''=-5 * -3'' (6 + 1)"
    by (simp add: isDigitAt_def charAt_def isDigit_def)
  have scan: "scanNumber ''=-5 * -3'' (6 + 1) = 8"
    by (simp add: scanNumber.simps charAt_def)
  have read: "parseFloat exact (substring ''=-5 * -3'' 6 8) = Finite (- 3)"
    by (simp add: substring_def exact_defs isDigit_def)
  show ?thesis
    using h1 h2 scan read
      sign_is_part_of_the_literal [of exact noFunctions initialEnv "''=-5 * -3''" 6 "CHR ''-''"
        "vars initialEnv"]
    by (simp add: numberToken_def)
qed

subsection \<open>Termination\<close>

text \<open>The loops of the lexer move forward and stop at the end of the text.\<close>

lemma skipSpaces_ge: "i \<le> skipSpaces expr i"
proof (induction expr i rule: skipSpaces.induct)
  case (1 expr i)
  show ?case
  proof (cases "charAt expr i = Some CHR '' ''")
    case True
    with "1.IH" have "i + 1 \<le> skipSpaces expr (i + 1)" by simp
    with True show ?thesis by (subst skipSpaces.simps) simp
  next
    case False
    then show ?thesis by (subst skipSpaces.simps) simp
  qed
qed

lemma scanName_bounds: "i < length expr \<Longrightarrow> i < scanName expr i \<and> scanName expr i \<le> length expr"
proof (induction expr i rule: scanName.induct)
  case (1 expr i)
  show ?case
  proof (cases "charAt expr (i + 1)")
    case None
    with "1.prems" show ?thesis
      by (subst (1 2) scanName.simps) (auto simp: charAt_def split: if_splits)
  next
    case (Some ch)
    then have lt: "i + 1 < length expr"
      by (auto simp: charAt_def split: if_splits)
    show ?thesis
    proof (cases "isCharacterOrNum ch")
      case True
      from "1.IH" [OF Some True lt] Some True show ?thesis
        by (subst (1 2) scanName.simps) simp
    next
      case False
      with Some lt show ?thesis
        by (subst (1 2) scanName.simps) simp
    qed
  qed
qed

lemma scanNumber_bounds:
  "i < length expr \<Longrightarrow> i < scanNumber expr i \<and> scanNumber expr i \<le> length expr"
proof (induction expr i rule: scanNumber.induct)
  case (1 expr i)
  show ?case
  proof (cases "charAt expr (i + 1)")
    case None
    with "1.prems" show ?thesis
      by (subst (1 2) scanNumber.simps) (auto simp: charAt_def split: if_splits)
  next
    case (Some ch)
    then have lt: "i + 1 < length expr"
      by (auto simp: charAt_def split: if_splits)
    show ?thesis
    proof (cases "isDigit ch \<or> ch = CHR ''.''")
      case True
      from "1.IH" [OF Some True lt] Some True show ?thesis
        by (subst (1 2) scanNumber.simps) simp
    next
      case False
      with Some lt show ?thesis
        by (subst (1 2) scanNumber.simps) simp
    qed
  qed
qed

lemma scanString_bounds:
  "i < length expr \<Longrightarrow> i < scanString expr i c \<and> scanString expr i c \<le> length expr"
proof (induction expr i c rule: scanString.induct)
  case (1 expr i prevCh)
  show ?case
  proof (cases "charAt expr (i + 1)")
    case None
    with "1.prems" show ?thesis
      by (subst (1 2) scanString.simps) (auto simp: charAt_def split: if_splits)
  next
    case (Some ch)
    then have lt: "i + 1 < length expr"
      by (auto simp: charAt_def split: if_splits)
    show ?thesis
    proof (cases "ch \<noteq> quote \<or> prevCh = backslash")
      case True
      from "1.IH" [OF Some True lt] Some True show ?thesis
        by (subst (1 2) scanString.simps) simp
    next
      case False
      with Some lt show ?thesis
        by (subst (1 2) scanString.simps) simp
    qed
  qed
qed

text \<open>Every branch of the lexer that returns a token consumes at least one character.\<close>

lemma lexName_bounds:
  assumes "lexName js vs expr sp = Inr (t, j)" and "sp < length expr"
  shows "sp < j \<and> j \<le> length expr"
proof -
  from assms(2) have b: "sp < scanName expr sp \<and> scanName expr sp \<le> length expr"
    by (rule scanName_bounds)
  show ?thesis
  proof (cases "charAt expr (scanName expr sp) = Some CHR ''(''")
    case True
    then have "scanName expr sp < length expr"
      by (auto simp: charAt_def split: if_splits)
    with assms(1) True b show ?thesis
      by (auto simp: lexName_def Let_def split: if_splits)
  next
    case False
    with assms(1) b show ?thesis
      by (auto simp: lexName_def Let_def split: if_splits option.splits VarValue.splits)
  qed
qed

lemma lexNumber_bounds:
  assumes "lexNumber js expr sp k = Inr (t, j)" and "k < length expr" and "sp \<le> k"
  shows "sp < j \<and> j \<le> length expr"
  using assms scanNumber_bounds [of k expr]
  by (auto simp: lexNumber_def Let_def)

lemma lexString_bounds:
  assumes "lexString expr sp = Inr (t, j)" and "sp < length expr"
  shows "sp < j \<and> j \<le> length expr + 1"
  using assms scanString_bounds [of sp expr quote]
  by (auto simp: lexString_def Let_def)

lemma lexSymbol_bounds:
  assumes "lexSymbol expr sp ch = Inr (t, j)" and "sp < length expr"
  shows "sp < j \<and> j \<le> length expr"
  using assms
  by (auto simp: lexSymbol_def Let_def charAt_def split: if_splits option.splits)

lemma parser_progress:
  assumes "parser js vs expr i checkSign = Inr (t, j)" and "tkClass t \<noteq> ClNone"
  shows "i < j \<and> j \<le> length expr + 1"
proof -
  let ?sp = "skipSpaces expr i"
  have ge: "i \<le> ?sp" by (rule skipSpaces_ge)
  show ?thesis
  proof (cases "charAt expr ?sp")
    case None
    with assms show ?thesis
      by (auto simp: parser_def setCanBinOp_def emptyToken_def)
  next
    case (Some ch)
    then have lt: "?sp < length expr"
      by (auto simp: charAt_def split: if_splits)
    let ?branch = "if isCharacter ch then lexName js vs expr ?sp
            else if checkSign \<and> (ch = CHR ''-'' \<or> ch = CHR ''+'') \<and> isDigitAt expr (?sp + 1)
              then lexNumber js expr ?sp (?sp + 1)
            else if isDigit ch then lexNumber js expr ?sp ?sp
            else if ch = quote then lexString expr ?sp
            else lexSymbol expr ?sp ch"
    from assms(1) Some obtain t' where branch: "?branch = Inr (t', j)"
      by (auto simp: parser_def bindE_def Let_def split: sum.splits)
    have "?sp < j \<and> j \<le> length expr + 1"
    proof (cases "isCharacter ch")
      case True
      with branch lexName_bounds [OF _ lt] show ?thesis by fastforce
    next
      case notName: False
      show ?thesis
      proof (cases "checkSign \<and> (ch = CHR ''-'' \<or> ch = CHR ''+'') \<and> isDigitAt expr (?sp + 1)")
        case True
        then have "?sp + 1 < length expr"
          by (auto simp: isDigitAt_def charAt_def split: if_splits)
        with branch notName True lexNumber_bounds [of js expr ?sp "?sp + 1" t' j]
        show ?thesis by auto
      next
        case notSigned: False
        show ?thesis
        proof (cases "isDigit ch")
          case True
          with branch notName notSigned lt lexNumber_bounds [of js expr ?sp ?sp t' j]
          show ?thesis by auto
        next
          case notDigit: False
          show ?thesis
          proof (cases "ch = quote")
            case True
            with branch notName notSigned notDigit lexString_bounds [OF _ lt, of t' j]
            show ?thesis by auto
          next
            case False
            with branch notName notSigned notDigit lexSymbol_bounds [OF _ lt, of ch t' j]
            show ?thesis by auto
          qed
        qed
      qed
    qed
    with ge show ?thesis by simp
  qed
qed

lemma iteration_progress:
  assumes "iteration js fns expr i st = Inr (Continue (j, st'))"
  shows "i < j \<and> j \<le> length expr + 1"
proof -
  from assms obtain t where p: "parser js (vars (env st)) expr i (state st \<noteq> Binary) = Inr (t, j)"
    and c: "tkClass t \<noteq> ClNone"
    by (auto simp: iteration_def bindE_def Let_def split: sum.splits if_splits)
  then show ?thesis by (rule parser_progress)
qed

lemma mainLoop_terminates: "\<exists>r. mainLoop js fns expr i st = Some r"
proof (induction "length expr + 2 - i" arbitrary: i st rule: less_induct)
  case less
  show ?case
  proof (cases "iteration js fns expr i st")
    case (Inl e)
    then show ?thesis by (subst mainLoop.simps) simp
  next
    case (Inr l)
    show ?thesis
    proof (cases l)
      case (Break b)
      with Inr show ?thesis by (subst mainLoop.simps) (simp split: prod.splits)
    next
      case (Continue c)
      obtain j st' where c: "c = (j, st')" by (cases c)
      with Inr Continue have it: "iteration js fns expr i st = Inr (Continue (j, st'))" by simp
      then have "i < j \<and> j \<le> length expr + 1" by (rule iteration_progress)
      then have "length expr + 2 - j < length expr + 2 - i" by arith
      then have "\<exists>r. mainLoop js fns expr j st' = Some r" by (rule less)
      with it show ?thesis by (subst mainLoop.simps) simp
    qed
  qed
qed

text \<open>
  C9. For every expression, every number model, every registry (its functions are total)
  and every variable context, the evaluation ends: it returns a value or throws. Each
  pass of the loop of the state machine that goes on has moved the lexer forward by at
  least one character, and the lexer stops at the end of the text.
\<close>

theorem calcExpr_terminates: "\<exists>r. calcExpr js fns expr e = Some r"
proof -
  obtain r where "mainLoop js fns expr 1
      \<lparr> stack = [], state = IdAndUnary, startPoint = 0, startPoints = [], env = e \<rparr> = Some r"
    using mainLoop_terminates by blast
  then show ?thesis
    by (cases r) (simp_all add: calcExpr_def stateMachine_def)
qed

subsection \<open>An array variable as left operand\<close>

text \<open>
  The lexer on a run of spaces, on a name, on the name of an array variable, on an
  arithmetic operator and on the spaces that end the input, wherever they stand in the
  expression.
\<close>

lemma skipSpaces_run:
  "isSpaces sp \<Longrightarrow> post = [] \<or> hd post \<noteq> CHR '' ''
    \<Longrightarrow> skipSpaces (pre @ sp @ post) (length pre) = length pre + length sp"
proof (induction sp arbitrary: pre)
  case Nil
  then have "charAt (pre @ post) (length pre) \<noteq> Some CHR '' ''"
    by (cases post) (simp_all add: charAt_def)
  then show ?case
    by (simp add: skipSpaces_stays)
next
  case (Cons c sp)
  then have c: "c = CHR '' ''" and sp: "isSpaces sp"
    by (simp_all add: isSpaces_def)
  have "skipSpaces ((pre @ [c]) @ sp @ post) (length (pre @ [c])) = length (pre @ [c]) + length sp"
    using sp Cons.prems(2) by (rule Cons.IH)
  then have next_one: "skipSpaces (pre @ c # sp @ post) (length pre + 1) = length pre + length (c # sp)"
    by simp
  have "charAt (pre @ c # sp @ post) (length pre) = Some CHR '' ''"
    by (simp add: charAt_def c)
  then show ?case
    using next_one by (subst skipSpaces.simps) simp
qed

lemma scanName_stops:
  "i < j \<Longrightarrow> j \<le> length expr \<Longrightarrow> (\<forall>k. i < k \<and> k < j \<longrightarrow> isCharacterOrNum (expr ! k))
    \<Longrightarrow> (j < length expr \<longrightarrow> \<not> isCharacterOrNum (expr ! j)) \<Longrightarrow> scanName expr i = j"
proof (induction expr i rule: scanName.induct)
  case (1 expr i)
  show ?case
  proof (cases "charAt expr (i + 1)")
    case None
    then have "length expr \<le> i + 1"
      by (auto simp: charAt_def split: if_splits)
    with "1.prems" have "j = i + 1" by simp
    with None show ?thesis
      by (subst scanName.simps) simp
  next
    case (Some ch)
    then have lt: "i + 1 < length expr" and ch: "ch = expr ! (i + 1)"
      by (auto simp: charAt_def split: if_splits)
    show ?thesis
    proof (cases "i + 1 = j")
      case True
      with "1.prems" lt ch have "\<not> isCharacterOrNum ch" by simp
      with Some True show ?thesis
        by (subst scanName.simps) simp
    next
      case False
      with "1.prems" have lt2: "i + 1 < j" by simp
      with "1.prems" ch have ok: "isCharacterOrNum ch" by simp
      have "scanName expr (i + 1) = j"
        using "1.IH" [OF Some ok lt2 "1.prems"(2)] "1.prems"(3,4) by simp
      with Some ok show ?thesis
        by (subst scanName.simps) simp
    qed
  qed
qed

lemma parser_array_variable:
  assumes "isSpaces sp" and "isVariableName x"
    and "post = [] \<or> (\<not> isCharacterOrNum (hd post) \<and> hd post \<noteq> CHR ''('')"
    and "vs x = Some (VArray a)"
  shows "parser js vs (pre @ sp @ x @ post) (length pre) checkSign
    = Inr (arrayToken a, length pre + length sp + length x)"
proof -
  let ?expr = "pre @ sp @ x @ post"
  let ?s = "length pre + length sp"
  let ?j = "length pre + length sp + length x"
  from assms(2) obtain c cs where x: "x = c # cs" and c: "isCharacter c"
    and cs: "list_all isCharacterOrNum cs"
    and kw: "x \<noteq> ''not''" "x \<noteq> ''and''" "x \<noteq> ''or''"
    by (cases x) (auto simp: isVariableName_def)
  have nsp: "c \<noteq> CHR '' ''"
    using c by (auto simp: isCharacter_def CharRanges_def)
  have skip: "skipSpaces ?expr (length pre) = ?s"
    using skipSpaces_run [OF assms(1), of "x @ post" pre] nsp x by simp
  have ch: "charAt ?expr ?s = Some c"
    by (simp add: charAt_def x nth_append)
  have scan: "scanName ?expr ?s = ?j"
  proof (rule scanName_stops)
    show "?s < ?j" by (simp add: x)
    show "?j \<le> length ?expr" by simp
    show "\<forall>k. ?s < k \<and> k < ?j \<longrightarrow> isCharacterOrNum (?expr ! k)"
    proof (intro allI impI)
      fix k assume k: "?s < k \<and> k < ?j"
      then obtain m where m: "k = length (pre @ sp) + Suc m" and lt: "m < length cs"
        using x by (auto simp: less_iff_Suc_add)
      have "?expr ! k = ((pre @ sp) @ (x @ post)) ! (length (pre @ sp) + Suc m)"
        unfolding m by simp
      also have "\<dots> = (x @ post) ! Suc m"
        by (rule nth_append_length_plus)
      also have "\<dots> = cs ! m"
        using lt by (simp add: x nth_append)
      finally show "isCharacterOrNum (?expr ! k)"
        using cs lt by (simp add: list_all_length)
    qed
    show "?j < length ?expr \<longrightarrow> \<not> isCharacterOrNum (?expr ! ?j)"
      using assms(3) by (cases post) (simp_all add: nth_append)
  qed
  have after: "charAt ?expr ?j \<noteq> Some CHR ''(''"
    using assms(3) by (cases post) (simp_all add: charAt_def nth_append)
  have sub: "substring ?expr ?s ?j = x"
    by (simp add: substring_def max_def min_def)
  show ?thesis
    using c kw assms(4) after
    by (simp add: parser_def skip ch lexName_def scan sub bindE_def setToken_def setCanBinOp_def
        emptyToken_def arrayToken_def Let_def)
qed

lemma parser_arith_operator:
  assumes "isSpaces sp" and "opr \<in> set [''+'', ''-'', ''*'', ''/'', ''%'']"
  shows "parser js vs (pre @ sp @ opr @ post) (length pre) False
    = Inr (\<lparr> paType = None, sValue = Some (Text opr), numValue = None, arrayValue = None,
             tkType = the (Str2TokenType opr), tkClass = Type2Class (the (Str2TokenType opr)),
             canBinOp = True, funcParams = None \<rparr>, length pre + length sp + 1)"
proof -
  let ?s = "length pre + length sp"
  from assms(2) obtain c where opr: "opr = [c]"
    and c: "c = CHR ''+'' \<or> c = CHR ''-'' \<or> c = CHR ''*'' \<or> c = CHR ''/'' \<or> c = CHR ''%''"
    by auto
  from c have cls: "c \<noteq> CHR '' ''" "\<not> isCharacter c" "\<not> isDigit c" "c \<noteq> quote"
      "c \<notin> set ''=!<>''"
    by (auto simp: isCharacter_def isDigit_def CharRanges_def quote_def)
  have skip: "skipSpaces (pre @ sp @ c # post) (length pre) = ?s"
    using skipSpaces_run [OF assms(1), of "c # post" pre] cls by simp
  have ch: "charAt (pre @ sp @ c # post) ?s = Some c"
    using nth_append_length [of "pre @ sp" c post] by (simp add: charAt_def)
  have sub: "substring (pre @ sp @ c # post) ?s (Suc ?s) = [c]"
    using append_eq_conv_conj [of "pre @ sp" "c # post" "pre @ sp @ c # post"]
    by (simp add: substring_def max_def min_def)
  have lex: "lexSymbol (pre @ sp @ c # post) ?s c
      = Inr (\<lparr> paType = None, sValue = Some (Text [c]), numValue = None, arrayValue = None,
             tkType = the (Str2TokenType [c]), tkClass = Type2Class (the (Str2TokenType [c])),
             canBinOp = False, funcParams = None \<rparr>, ?s + 1)"
    using c cls(5) sub
    by (elim disjE) (simp_all add: lexSymbol_def setToken_def emptyToken_def Str2TokenType_def)
  have bin: "Type2Class (the (Str2TokenType [c])) = ClUnary
      \<or> Type2Class (the (Str2TokenType [c])) = ClBinary"
    using c by (elim disjE) (simp_all add: Str2TokenType_def)
  show ?thesis
    unfolding opr using cls bin
    by (simp add: parser_def skip ch lex bindE_def setCanBinOp_def)
qed

lemma parser_at_spaces:
  assumes "isSpaces sp"
  shows "parser js vs (pre @ sp) (length pre) checkSign
    = Inr (setCanBinOp emptyToken, length pre + length sp)"
proof -
  have "skipSpaces (pre @ sp @ []) (length pre) = length pre + length sp"
    using assms by (intro skipSpaces_run) simp_all
  then show ?thesis
    by (simp add: parser_def charAt_def)
qed

text \<open>
  Each of the five arithmetic operators on two arrays of one length: the results are
  written at the address of the left operand, which is the token returned.
\<close>

lemma calcBinary_on_arrays:
  assumes "(tkType op, f) \<in> set [(TkPlus, numAdd js), (TkMinus, numSub js),
             (TkMultiply, numMul js), (TkDivide, numDiv js), (TkMod, numMod js)]"
    and "paType v2 = Some PaArray" and "arrayValue v2 = Some a2"
    and "length (arrs a1) = length (arrs a2)"
  shows "calcBinary js op (arrayToken a1) v2 arrs
    = Inr (arrayToken a1,
           arrs(a1 := map (\<lambda>(p, q). Some (arith js f p q)) (zip (arrs a1) (arrs a2))))"
proof -
  from assms(1) have "tkType op = TkPlus \<and> f = numAdd js \<or> tkType op = TkMinus \<and> f = numSub js
    \<or> tkType op = TkMultiply \<and> f = numMul js \<or> tkType op = TkDivide \<and> f = numDiv js
    \<or> tkType op = TkMod \<and> f = numMod js"
    by auto
  then show ?thesis
    using assms(2,3,4)
    by (elim disjE conjE)
       (simp_all add: calcBinary_def execArith_def execOp_def bindE_def forEachIndex_eq
          arrayToken_def)
qed

text \<open>
  An expression in which the lexer finds a value, an operator, a value and the end of
  the input evaluates to what \<open>calcBinary\<close> leaves in the first value, in the store
  \<open>calcBinary\<close> leaves.
\<close>

lemma calcExpr_one_operator:
  assumes p1: "parser js (vars e) expr 1 True = Inr (t1, j1)" and c1: "tkClass t1 = ClValue"
    and p2: "parser js (vars e) expr j1 False = Inr (op, j2)"
    and cop: "tkClass op = ClUnary \<or> tkClass op = ClBinary" and bin: "canBinOp op"
    and p3: "parser js (vars e) expr j2 True = Inr (t2, j3)" and c2: "tkClass t2 = ClValue"
    and p4: "parser js (vars e) expr j3 False = Inr (setCanBinOp emptyToken, j4)"
    and calc: "calcBinary js op t1 t2 (arrays e) = Inr (r, arrs')" and cr: "tkClass r = ClValue"
  shows "calcExpr js fns expr e = Some (Inr (valueOfToken r, e\<lparr> arrays := arrs' \<rparr>))"
proof -
  let ?st0 = "\<lparr> stack = [], state = IdAndUnary, startPoint = 0, startPoints = [], env = e \<rparr>"
  let ?st1 = "\<lparr> stack = [t1], state = Binary, startPoint = 0, startPoints = [], env = e \<rparr>"
  let ?st2 = "\<lparr> stack = [t1, op], state = NoUnary, startPoint = 0, startPoints = [], env = e \<rparr>"
  let ?st3 = "\<lparr> stack = [t1, op, t2], state = Binary, startPoint = 0, startPoints = [], env = e \<rparr>"
  have it1: "iteration js fns expr 1 ?st0 = Inr (Continue (j1, ?st1))"
    unfolding iteration_def
    using p1 c1
    by (simp add: bindE_def caseValue_def unaryPending_def push_def
        calcStackRight.simps stackLast_def Let_def)
  have it2: "iteration js fns expr j1 ?st1 = Inr (Continue (j2, ?st2))"
    unfolding iteration_def
    using p2 cop
    by (auto simp: bindE_def caseOperator_def push_def stackLast_def Let_def)
  have it3: "iteration js fns expr j2 ?st2 = Inr (Continue (j3, ?st3))"
    unfolding iteration_def
    using p3 c2 c1 cop
    by (auto simp: bindE_def caseValue_def unaryPending_def push_def nthOpt_def
        calcStackRight.simps stackLast_def Let_def)
  have it4: "iteration js fns expr j3 ?st3 = Inr (Break (j4, ?st3))"
    unfolding iteration_def
    by (simp add: p4 bindE_def setCanBinOp_def emptyToken_def Let_def)
  have loop: "mainLoop js fns expr 1 ?st0 = Some (Inr ?st3)"
    by (subst mainLoop.simps, simp only: it1 sum.case Loop.case prod.case,
        subst mainLoop.simps, simp only: it2 sum.case Loop.case prod.case,
        subst mainLoop.simps, simp only: it3 sum.case Loop.case prod.case,
        subst mainLoop.simps, simp only: it4 sum.case Loop.case prod.case)
  have red: "reduceAt js 0 op ?st3
      = Inr \<lparr> stack = [r], state = Binary, startPoint = 0, startPoints = [],
               env = e\<lparr> arrays := arrs' \<rparr> \<rparr>"
    by (simp add: reduceAt_def nthOpt_def calc bindE_def)
  have fin: "finish js ?st3 = Inr (valueOfToken r, e\<lparr> arrays := arrs' \<rparr>)"
    unfolding finish_def
    by (subst calcStackLeft.simps, simp add: stackLast_def nthOpt_def bin red,
        subst calcStackLeft.simps, simp add: stackLast_def bindE_def cr)
  show ?thesis
    unfolding calcExpr_def stateMachine_def
    by (simp only: loop fin option.case sum.case)
qed

lemma operator_class:
  assumes "c \<in> set ''+-*/% ''"
  shows "\<not> isCharacterOrNum c" and "c \<noteq> CHR ''(''"
  using assms by (auto simp: isCharacterOrNum_def isCharacter_def isDigit_def CharRanges_def)

lemma hd_spaces:
  assumes "isSpaces sp" and "c \<in> set ''+-*/% ''"
  shows "hd (sp @ c # rest) \<in> set ''+-*/% ''"
  using assms by (cases sp) (auto simp: isSpaces_def)

text \<open>
  C10. Let \<open>x\<close> be an array variable, \<open>a\<close> the address the Variable Context holds for
  it, and take any of the operators \<^verbatim>\<open>+ - * / %\<close>, with \<open>ty\<close> its token type and \<open>f\<close>
  its operation on numbers.
  \<^item> Wherever \<open>x\<close> stands before the operator in an expression, the lexer returns for it
    the token that holds the address \<open>a\<close>: no copy of the array is made.
  \<^item> With that token as its left operand and any array of the same length as its right
    operand, \<open>calcBinary\<close> writes the element-wise results at the address \<open>a\<close> and
    leaves every other array as it is.
  \<^item> For any array variable \<open>y\<close> of the same length (it may be \<open>x\<close> itself) and any
    runs of spaces, the evaluation of \<open>x\<close>, the operator and \<open>y\<close> returns the array at
    \<open>a\<close>, leaves in it the element-wise results and leaves the other arrays and the
    variables as they are, so that a later evaluation of \<open>x\<close> returns the changed array.
  \<^item> The same holds with an array literal on the right: the evaluation of \<^verbatim>\<open>=myArr\<close>,
    the operator and \<^verbatim>\<open>[1,1]\<close>, with \<^verbatim>\<open>myArr\<close> an array of two elements (at an address
    in use, below the one the next new array gets), changes the array of \<^verbatim>\<open>myArr\<close> for
    the evaluations that follow.
\<close>

theorem array_variable_is_changed:
  assumes "(opr, ty, f) \<in> set [(''+'', TkPlus, numAdd js), (''-'', TkMinus, numSub js),
           (''*'', TkMultiply, numMul js), (''/'', TkDivide, numDiv js), (''%'', TkMod, numMod js)]"
    and "isVariableName x" and "vars e x = Some (VArray a)"
    and "isSpaces s0" and "isSpaces s1"
  shows "parser js (vars e) (pre @ s0 @ x @ s1 @ opr @ post) (length pre) checkSign
        = Inr (arrayToken a, length pre + length s0 + length x)
    \<and> (tkType op = ty \<and> paType v2 = Some PaArray \<and> arrayValue v2 = Some b
          \<and> length (arrays e a) = length (arrays e b)
        \<longrightarrow> calcBinary js op (arrayToken a) v2 (arrays e)
            = Inr (arrayToken a,
                   (arrays e)(a := map (\<lambda>(p, q). Some (arith js f p q))
                                       (zip (arrays e a) (arrays e b)))))
    \<and> (isVariableName y \<and> vars e y = Some (VArray b) \<and> isSpaces s2 \<and> isSpaces s3
          \<and> length (arrays e a) = length (arrays e b)
        \<longrightarrow> (\<exists>e'. calcExpr js fns (''='' @ s0 @ x @ s1 @ opr @ s2 @ y @ s3) e
                    = Some (Inr (RArray a, e'))
              \<and> arrays e' = (arrays e)(a := map (\<lambda>(p, q). Some (arith js f p q))
                                              (zip (arrays e a) (arrays e b)))
              \<and> vars e' = vars e
              \<and> calcExpr js fns (''='' @ x) e' = Some (Inr (RArray a, e'))))
    \<and> (x = ''myArr'' \<and> a < nextRef e \<and> length (arrays e a) = 2
        \<longrightarrow> (\<exists>e'. calcExpr js fns (''=myArr '' @ opr @ '' [1,1]'') e = Some (Inr (RArray a, e'))
              \<and> arrays e' a = map (\<lambda>p. Some (arith js f p (Some (parseFloat js ''1''))))
                                (arrays e a)
              \<and> vars e' = vars e
              \<and> calcExpr js fns ''=myArr'' e' = Some (Inr (RArray a, e'))))"
proof (intro conjI impI)
  from assms(1) have ops: "opr = ''+'' \<and> ty = TkPlus \<and> f = numAdd js
      \<or> opr = ''-'' \<and> ty = TkMinus \<and> f = numSub js
      \<or> opr = ''*'' \<and> ty = TkMultiply \<and> f = numMul js
      \<or> opr = ''/'' \<and> ty = TkDivide \<and> f = numDiv js
      \<or> opr = ''%'' \<and> ty = TkMod \<and> f = numMod js"
    by auto
  then have opr: "opr \<in> set [''+'', ''-'', ''*'', ''/'', ''%'']"
    by auto
  then obtain c where c: "opr = [c]" and cin: "c \<in> set ''+-*/% ''"
    by auto
  have after_x: "s1 @ opr @ rest = []
      \<or> (\<not> isCharacterOrNum (hd (s1 @ opr @ rest)) \<and> hd (s1 @ opr @ rest) \<noteq> CHR ''('')" for rest
    using hd_spaces [OF assms(5) cin, of rest] operator_class by (simp add: c)
  have types: "(ty, f) \<in> set [(TkPlus, numAdd js), (TkMinus, numSub js),
             (TkMultiply, numMul js), (TkDivide, numDiv js), (TkMod, numMod js)]"
    using ops by auto
  have lexed: "Str2TokenType opr = Some ty"
    using ops by (elim disjE conjE) (simp_all add: Str2TokenType_def)
  show "parser js (vars e) (pre @ s0 @ x @ s1 @ opr @ post) (length pre) checkSign
        = Inr (arrayToken a, length pre + length s0 + length x)"
    using parser_array_variable [where vs = "vars e" and js = js, OF assms(4) assms(2) after_x assms(3)]
    by simp
  show "calcBinary js op (arrayToken a) v2 (arrays e)
            = Inr (arrayToken a,
                   (arrays e)(a := map (\<lambda>(p, q). Some (arith js f p q))
                                       (zip (arrays e a) (arrays e b))))"
    if "tkType op = ty \<and> paType v2 = Some PaArray \<and> arrayValue v2 = Some b
          \<and> length (arrays e a) = length (arrays e b)"
    using that types by (intro calcBinary_on_arrays) simp_all
  show "\<exists>e'. calcExpr js fns (''='' @ s0 @ x @ s1 @ opr @ s2 @ y @ s3) e = Some (Inr (RArray a, e'))
          \<and> arrays e' = (arrays e)(a := map (\<lambda>(p, q). Some (arith js f p q))
                                          (zip (arrays e a) (arrays e b)))
          \<and> vars e' = vars e
          \<and> calcExpr js fns (''='' @ x) e' = Some (Inr (RArray a, e'))"
    if right: "isVariableName y \<and> vars e y = Some (VArray b) \<and> isSpaces s2 \<and> isSpaces s3
          \<and> length (arrays e a) = length (arrays e b)"
  proof -
    let ?expr = "''='' @ s0 @ x @ s1 @ opr @ s2 @ y @ s3"
    let ?op = "\<lparr> paType = None, sValue = Some (Text opr), numValue = None, arrayValue = None,
               tkType = the (Str2TokenType opr), tkClass = Type2Class (the (Str2TokenType opr)),
               canBinOp = True, funcParams = None \<rparr> :: 'a Token"
    let ?arrs = "(arrays e)(a := map (\<lambda>(p, q). Some (arith js f p q)) (zip (arrays e a) (arrays e b)))"
    let ?e = "e\<lparr> arrays := ?arrs \<rparr>"
    let ?j1 = "1 + length s0 + length x"
    let ?j2 = "?j1 + length s1 + 1"
    let ?j3 = "?j2 + length s2 + length y"
    let ?j4 = "?j3 + length s3"
    from right have y: "isVariableName y" and vy: "vars e y = Some (VArray b)"
      and s2: "isSpaces s2" and s3: "isSpaces s3"
      and len: "length (arrays e a) = length (arrays e b)"
      by simp_all
    have after_y: "s3 = [] \<or> (\<not> isCharacterOrNum (hd s3) \<and> hd s3 \<noteq> CHR ''('')"
      using s3 operator_class [of "CHR '' ''"] by (cases s3) (simp_all add: isSpaces_def)
    have p1: "parser js (vars e) ?expr 1 True = Inr (arrayToken a, ?j1)"
      using parser_array_variable [where vs = "vars e" and pre = "''=''" and js = js
          and checkSign = True, OF assms(4) assms(2) after_x assms(3)]
      by (simp add: add.assoc)
    have p2: "parser js (vars e) ?expr ?j1 False = Inr (?op, ?j2)"
      using parser_arith_operator [OF assms(5) opr, where pre = "''='' @ s0 @ x"
          and post = "s2 @ y @ s3" and js = js and vs = "vars e"]
      by (simp add: add.assoc)
    have p3: "parser js (vars e) ?expr ?j2 True = Inr (arrayToken b, ?j3)"
      using parser_array_variable [where vs = "vars e" and pre = "''='' @ s0 @ x @ s1 @ opr"
          and js = js and checkSign = True, OF s2 y after_y vy]
      by (simp add: c add.assoc)
    have p4: "parser js (vars e) ?expr ?j3 False = Inr (setCanBinOp emptyToken, ?j4)"
      using parser_at_spaces [OF s3, where pre = "''='' @ s0 @ x @ s1 @ opr @ s2 @ y"
          and js = js and vs = "vars e" and checkSign = False]
      by (simp add: c add.assoc)
    have ty: "(tkType ?op, f) \<in> set [(TkPlus, numAdd js), (TkMinus, numSub js),
               (TkMultiply, numMul js), (TkDivide, numDiv js), (TkMod, numMod js)]"
      using types by (simp add: lexed)
    have cls: "tkClass ?op = ClUnary \<or> tkClass ?op = ClBinary"
      using ops by (elim disjE conjE) (simp_all add: Str2TokenType_def)
    have calc: "calcBinary js ?op (arrayToken a) (arrayToken b) (arrays e) = Inr (arrayToken a, ?arrs)"
      using ty _ _ len by (rule calcBinary_on_arrays) (simp_all add: arrayToken_def)
    have first: "calcExpr js fns ?expr e = Some (Inr (valueOfToken (arrayToken a), ?e))"
      by (rule calcExpr_one_operator [OF p1 _ p2 cls _ p3 _ p4 calc]) (simp_all add: arrayToken_def)
    have "parser js (vars ?e) (''='' @ x) 1 True = Inr (arrayToken a, 1 + length x)"
      using parser_array_variable [where vs = "vars e" and pre = "''=''" and sp = "[]"
          and post = "[]" and js = js and checkSign = True, OF _ assms(2) _ assms(3)]
      by (simp add: isSpaces_def)
    then have later: "calcExpr js fns (''='' @ x) ?e = Some (Inr (valueOfToken (arrayToken a), ?e))"
      by (rule calcExpr_single_value) (simp_all add: arrayToken_def)
    have val: "valueOfToken (arrayToken a) = RArray a"
      by (simp add: valueOfToken_def arrayToken_def)
    from first later show ?thesis
      unfolding val by (intro exI [of _ ?e]) simp
  qed
  show "\<exists>e'. calcExpr js fns (''=myArr '' @ opr @ '' [1,1]'') e = Some (Inr (RArray a, e'))
          \<and> arrays e' a = map (\<lambda>p. Some (arith js f p (Some (parseFloat js ''1''))))
                            (arrays e a)
          \<and> vars e' = vars e
          \<and> calcExpr js fns ''=myArr'' e' = Some (Inr (RArray a, e'))"
    if literal: "x = ''myArr'' \<and> a < nextRef e \<and> length (arrays e a) = 2"
  proof -
    from literal obtain x0 x1 where xs: "arrays e a = [x0, x1]"
      by (auto simp: length_Suc_conv eval_nat_numeral)
    from assms(3) literal have var: "vars e ''myArr'' = Some (VArray a)" and fresh: "a < nextRef e"
      by simp_all
    from ops show ?thesis
      using var fresh xs
      by (elim disjE conjE)
         (simp_all add: lexer_defs machine_defs calcBinary_def execArith_def execOp_def
            forEachIndex_def elemAt_def)
  qed
qed

theorem array_variable_is_changed_witness:
  "(''-'', TkMinus, numSub exact) \<in> set [(''+'', TkPlus, numAdd exact),
        (''-'', TkMinus, numSub exact), (''*'', TkMultiply, numMul exact),
        (''/'', TkDivide, numDiv exact), (''%'', TkMod, numMod exact)]
   \<and> isVariableName ''myArr'' \<and> vars arrayEnv ''myArr'' = Some (VArray 0)
   \<and> isSpaces [] \<and> isSpaces '' ''
   \<and> tkType (minusToken :: Exact Token) = TkMinus
   \<and> isVariableName ''other'' \<and> vars arrayEnv ''other'' = Some (VArray 1)
   \<and> length (arrays arrayEnv 0) = length (arrays arrayEnv 1)
   \<and> 0 < nextRef arrayEnv \<and> length (arrays arrayEnv 0) = 2
   \<and> parser exact (vars arrayEnv) ''=1 + myArr - other'' 5 True = Inr (arrayToken 0, 10)
   \<and> (\<exists>h. calcBinary exact minusToken (arrayToken 0) (arrayToken 1) (arrays arrayEnv)
            = Inr (arrayToken 0, h)
         \<and> h 0 = [Some (Finite 7), Some (Finite 16)]
         \<and> h 1 = [Some (Finite 3), Some (Finite 4)])
   \<and> (\<exists>e'. calcExpr exact noFunctions ''=myArr - other'' arrayEnv = Some (Inr (RArray 0, e'))
         \<and> arrays e' 0 = [Some (Finite 7), Some (Finite 16)]
         \<and> arrays e' 1 = [Some (Finite 3), Some (Finite 4)]
         \<and> vars e' = vars arrayEnv
         \<and> calcExpr exact noFunctions ''=myArr'' e' = Some (Inr (RArray 0, e')))
   \<and> (\<exists>e'. calcExpr exact noFunctions ''=myArr - [1,1]'' arrayEnv = Some (Inr (RArray 0, e'))
         \<and> arrays e' 0 = [Some (Finite 9), Some (Finite 19)]
         \<and> vars e' = vars arrayEnv
         \<and> calcExpr exact noFunctions ''=myArr'' e' = Some (Inr (RArray 0, e')))"
proof -
  have h1: "(''-'', TkMinus, numSub exact) \<in> set [(''+'', TkPlus, numAdd exact),
        (''-'', TkMinus, numSub exact), (''*'', TkMultiply, numMul exact),
        (''/'', TkDivide, numDiv exact), (''%'', TkMod, numMod exact)]"
    by simp
  have h2: "isVariableName ''myArr''" and h7: "isVariableName ''other''"
    by (simp_all add: isVariableName_def isCharacter_def isCharacterOrNum_def CharRanges_def)
  have h4: "isSpaces []" and h5: "isSpaces '' ''"
    by (simp_all add: isSpaces_def)
  have h6: "tkType (minusToken :: Exact Token) = TkMinus"
    by (simp add: minusToken_def)
  have h3: "vars arrayEnv ''myArr'' = Some (VArray 0)"
    and h8: "vars arrayEnv ''other'' = Some (VArray 1)"
    and h9: "length (arrays arrayEnv 0) = length (arrays arrayEnv 1)"
    and h10: "0 < nextRef arrayEnv" and h11: "length (arrays arrayEnv 0) = 2"
    by (simp_all add: arrayEnv_def)
  have one: "parseFloat exact ''1'' = Finite 1"
    by (simp add: exact_defs isDigit_def)
  have differences: "map (\<lambda>(p, q). Some (arith exact (numSub exact) p q))
        (zip (arrays arrayEnv 0) (arrays arrayEnv 1)) = [Some (Finite 7), Some (Finite 16)]"
    by (simp add: arrayEnv_def arith_def exact_def exSub_def)
  have others: "arrays arrayEnv 1 = [Some (Finite 3), Some (Finite 4)]"
    by (simp add: arrayEnv_def)
  have less: "map (\<lambda>p. Some (arith exact (numSub exact) p (Some (Finite 1)))) (arrays arrayEnv 0)
      = [Some (Finite 9), Some (Finite 19)]"
    by (simp add: arrayEnv_def arith_def exact_def exSub_def)
  note inst = array_variable_is_changed [where js = exact and fns = noFunctions
      and pre = "''=1 + ''" and post = "'' other''" and checkSign = True
      and op = minusToken and ?v2.0 = "arrayToken 1" and b = 1 and y = "''other''"
      and ?s2.0 = "'' ''" and ?s3.0 = "[]", OF h1 h2 h3 h4 h5]
  have c1: "parser exact (vars arrayEnv) ''=1 + myArr - other'' 5 True = Inr (arrayToken 0, 10)"
    using inst [THEN conjunct1] by (simp add: eval_nat_numeral)
  have "calcBinary exact minusToken (arrayToken 0) (arrayToken 1) (arrays arrayEnv)
      = Inr (arrayToken 0, (arrays arrayEnv)(0 := [Some (Finite 7), Some (Finite 16)]))"
    using inst [THEN conjunct2, THEN conjunct1] h6 h9
    unfolding differences by (simp add: arrayToken_def)
  then have c2: "\<exists>h. calcBinary exact minusToken (arrayToken 0) (arrayToken 1) (arrays arrayEnv)
            = Inr (arrayToken 0, h)
         \<and> h 0 = [Some (Finite 7), Some (Finite 16)]
         \<and> h 1 = [Some (Finite 3), Some (Finite 4)]"
    using others by simp
  have "\<exists>e'. calcExpr exact noFunctions ''=myArr - other'' arrayEnv = Some (Inr (RArray 0, e'))
         \<and> arrays e' = (arrays arrayEnv)(0 := [Some (Finite 7), Some (Finite 16)])
         \<and> vars e' = vars arrayEnv
         \<and> calcExpr exact noFunctions ''=myArr'' e' = Some (Inr (RArray 0, e'))"
    using inst [THEN conjunct2, THEN conjunct2, THEN conjunct1] h7 h8 h5 h4 h9
    unfolding differences by simp
  then obtain e1 where e1: "calcExpr exact noFunctions ''=myArr - other'' arrayEnv = Some (Inr (RArray 0, e1))"
      "arrays e1 = (arrays arrayEnv)(0 := [Some (Finite 7), Some (Finite 16)])"
      "vars e1 = vars arrayEnv"
      "calcExpr exact noFunctions ''=myArr'' e1 = Some (Inr (RArray 0, e1))"
    by (elim exE conjE)
  have c3: "\<exists>e'. calcExpr exact noFunctions ''=myArr - other'' arrayEnv = Some (Inr (RArray 0, e'))
         \<and> arrays e' 0 = [Some (Finite 7), Some (Finite 16)]
         \<and> arrays e' 1 = [Some (Finite 3), Some (Finite 4)]
         \<and> vars e' = vars arrayEnv
         \<and> calcExpr exact noFunctions ''=myArr'' e' = Some (Inr (RArray 0, e'))"
    using e1(1,3,4) others by (intro exI [of _ e1]) (simp add: e1(2))
  have c4: "\<exists>e'. calcExpr exact noFunctions ''=myArr - [1,1]'' arrayEnv = Some (Inr (RArray 0, e'))
         \<and> arrays e' 0 = [Some (Finite 9), Some (Finite 19)]
         \<and> vars e' = vars arrayEnv
         \<and> calcExpr exact noFunctions ''=myArr'' e' = Some (Inr (RArray 0, e'))"
    using inst [THEN conjunct2, THEN conjunct2, THEN conjunct2] h10 h11
    unfolding one less by simp
  show ?thesis
    by (intro conjI; fact)
qed

end
